theory Spec2Isabelle
  imports Main "HOL-Library.Sublist" "HOL-Library.AList"
begin

section \<open>Front-end usage tracking (packages/front-end/services/track.ts)\<close>

subsection \<open>JavaScript values and objects\<close>

text \<open>
  A JavaScript string is modelled as a \<^typ>\<open>string\<close>; the code only compares strings,
  takes substrings by position and concatenates them. \<open>s.substring(0, n)\<close> is
  \<^term>\<open>take n s\<close> and \<open>s.substring(n)\<close> is \<^term>\<open>drop n s\<close>.

  The values a property bag (\<open>Record<string, unknown>\<close>) can hold. The tracking code itself
  stores strings, booleans and \<open>undefined\<close>; its callers may store anything. \<open>Function r\<close> is
  a function that returns \<open>r\<close> when it is called, \<open>Cyclic\<close> an object that contains itself,
  \<open>Object\<close> a plain object with its own enumerable properties in order.
\<close>

datatype jsval =
    Undefined | Null | Bool bool | Num int | Str string
  | BigInt int
  | Function jsval
  | Array "jsval list"
  | Object "(string \<times> jsval) list"
  | Cyclic

text \<open>
  An object is the list of its own properties in insertion order. Writing a property that
  is already there replaces its value in place, a new property goes last: this is
  \<^const>\<open>AList.update\<close>.
\<close>

type_synonym TrackEventProps = "(string \<times> jsval) list"

definition get_prop :: "TrackEventProps \<Rightarrow> string \<Rightarrow> jsval" where
  "get_prop obj k = (case map_of obj k of None \<Rightarrow> Undefined | Some v \<Rightarrow> v)"

text \<open>An optional string field (\<open>undefined\<close> when absent) as a value.\<close>

definition opt_val :: "string option \<Rightarrow> jsval" where
  "opt_val x = (case x of None \<Rightarrow> Undefined | Some s \<Rightarrow> Str s)"

text \<open>Truthiness of an optional string: \<open>undefined\<close> and \<open>""\<close> are falsy.\<close>

definition truthy :: "string option \<Rightarrow> bool" where
  "truthy x = (case x of None \<Rightarrow> False | Some s \<Rightarrow> s \<noteq> [])"

subsection \<open>JSON.stringify\<close>

text \<open>
  The text \<open>JSON.stringify\<close> produces is modelled by the JSON value it denotes. The function
  follows \<open>SerializeJSONProperty\<close> of the language: an object with a callable \<open>toJSON\<close> is
  replaced by what \<open>toJSON\<close> returns (the result is not asked for its own \<open>toJSON\<close>, its
  properties are); \<open>undefined\<close> and functions give no text, so a property holding one is
  left out and an array element holding one becomes \<open>null\<close>; a \<open>BigInt\<close> and a cyclic
  object throw a \<open>TypeError\<close>.
\<close>

datatype json =
    JNull | JBool bool | JNum int | JStr string
  | JArray "json list"
  | JObject "(string \<times> json) list"

datatype JSError = TypeError

fun toJSON_result :: "jsval \<Rightarrow> jsval option" where
  "toJSON_result (Object ps) =
     (case map_of ps ''toJSON'' of Some (Function r) \<Rightarrow> Some r | _ \<Rightarrow> None)"
| "toJSON_result _ = None"

text \<open>The members of an object and the elements of an array from the results for their parts.\<close>

fun members :: "(string \<times> (JSError + json option)) list \<Rightarrow> JSError + (string \<times> json) list" where
  "members [] = Inr []"
| "members ((k, Inl e) # ms) = Inl e"
| "members ((k, Inr None) # ms) = members ms"
| "members ((k, Inr (Some j)) # ms) =
     (case members ms of Inl e \<Rightarrow> Inl e | Inr js \<Rightarrow> Inr ((k, j) # js))"

fun elements :: "(JSError + json option) list \<Rightarrow> JSError + json list" where
  "elements [] = Inr []"
| "elements (Inl e # ms) = Inl e"
| "elements (Inr None # ms) =
     (case elements ms of Inl e \<Rightarrow> Inl e | Inr js \<Rightarrow> Inr (JNull # js))"
| "elements (Inr (Some j) # ms) =
     (case elements ms of Inl e \<Rightarrow> Inl e | Inr js \<Rightarrow> Inr (j # js))"

text \<open>
  \<open>SerializeJSONProperty True v\<close> is the whole operation on the value \<open>v\<close> of a property;
  \<open>SerializeJSONProperty False v\<close> is its part after the call of \<open>toJSON\<close>.
\<close>

function SerializeJSONProperty :: "bool \<Rightarrow> jsval \<Rightarrow> JSError + json option" where
  "SerializeJSONProperty True v =
     (case toJSON_result v of
        Some r \<Rightarrow> SerializeJSONProperty False r
      | None \<Rightarrow> SerializeJSONProperty False v)"
| "SerializeJSONProperty False Undefined = Inr None"
| "SerializeJSONProperty False Null = Inr (Some JNull)"
| "SerializeJSONProperty False (Bool b) = Inr (Some (JBool b))"
| "SerializeJSONProperty False (Num n) = Inr (Some (JNum n))"
| "SerializeJSONProperty False (Str s) = Inr (Some (JStr s))"
| "SerializeJSONProperty False (BigInt n) = Inl TypeError"
| "SerializeJSONProperty False (Function r) = Inr None"
| "SerializeJSONProperty False Cyclic = Inl TypeError"
| "SerializeJSONProperty False (Array vs) =
     (case elements (map (SerializeJSONProperty True) vs) of
        Inl e \<Rightarrow> Inl e
      | Inr js \<Rightarrow> Inr (Some (JArray js)))"
| "SerializeJSONProperty False (Object ps) =
     (case members (map (\<lambda>kv. (fst kv, SerializeJSONProperty True (snd kv))) ps) of
        Inl e \<Rightarrow> Inl e
      | Inr js \<Rightarrow> Inr (Some (JObject js)))"
  by pat_completeness auto
termination
proof (relation "measure (\<lambda>(b, v). 2 * size v + (if b then 1 else 0))", goal_cases)
  case 1
  show ?case by simp
next
  case (2 v)
  then show ?case by simp
next
  case (3 v r)
  have m: "map_of ps k = Some x \<Longrightarrow> size x < Suc (size_list (size_prod (\<lambda>_. 0) size) ps)"
    for ps :: "(string \<times> jsval) list" and k x
    by (induction ps) (auto split: if_splits)
  from 3 obtain ps where v: "v = Object ps" and t: "map_of ps ''toJSON'' = Some (Function r)"
    by (cases v) (auto split: option.splits jsval.splits)
  have "size (Function r) < Suc (size_list (size_prod (\<lambda>_. 0) size) ps)"
    using t by (rule m)
  then show ?case
    using v by simp
next
  case (4 vs x)
  have "y \<in> set ys \<Longrightarrow> size y < Suc (size_list size ys)" for y :: jsval and ys
    by (induction ys) auto
  with 4 show ?case by fastforce
next
  case (5 ps kv)
  have "x \<in> set qs \<Longrightarrow> size (snd x) < Suc (size_list (size_prod (\<lambda>_. 0) size) qs)"
    for x :: "string \<times> jsval" and qs
    by (induction qs) auto
  with 5 show ?case by fastforce
qed

text \<open>\<open>JSON.stringify(value)\<close>: the text, \<open>None\<close> for \<open>undefined\<close>, or the exception.\<close>

definition JSON_stringify :: "jsval \<Rightarrow> JSError + json option" where
  "JSON_stringify v = SerializeJSONProperty True v"

subsection \<open>parseSnapshotDimension\<close>

text \<open>
  The result \<open>{type, id}\<close> of \<open>parseSnapshotDimension\<close>. The hash function \<open>md5\<close> comes
  from an npm package; it is a parameter here and a field of the environment of \<open>track\<close>.
\<close>

record ParsedDimension =
  dim_type :: string
  dim_id :: string

definition parseSnapshotDimension :: "(string \<Rightarrow> string) \<Rightarrow> string \<Rightarrow> ParsedDimension" where
  "parseSnapshotDimension md5 dimension =
     (if dimension = [] then \<lparr>dim_type = ''none'', dim_id = ''''\<rparr>
      else if take 4 dimension = ''pre:'' then
        \<lparr>dim_type = ''predefined'', dim_id = drop 4 dimension\<rparr>
      else if take 4 dimension = ''exp:'' then
        \<lparr>dim_type = ''experiment'', dim_id = md5 (drop 4 dimension)\<rparr>
      else \<lparr>dim_type = ''user'', dim_id = md5 dimension\<rparr>)"

subsection \<open>Regular expressions of the tracking code\<close>

text \<open>
  \<open>s.match(/lit/)\<close> without anchors is truthy when the literal occurs somewhere in \<open>s\<close>:
  \<^term>\<open>sublist lit s\<close>. Under the flag \<open>i\<close> an ASCII letter matches both of its cases.
\<close>

definition toLowerASCII :: "char \<Rightarrow> char" where
  "toLowerASCII c =
     (case map_of (zip ''ABCDEFGHIJKLMNOPQRSTUVWXYZ'' ''abcdefghijklmnopqrstuvwxyz'') c of
        Some l \<Rightarrow> l
      | None \<Rightarrow> c)"

text \<open>\<open>!!hostname.match(/(localhost|127\.0\.0\.1)/i)\<close>\<close>

definition isLocalhost :: "string \<Rightarrow> bool" where
  "isLocalhost h =
     (sublist ''localhost'' (map toLowerASCII h) \<or> sublist ''127.0.0.1'' (map toLowerASCII h))"

text \<open>\<open>referrer.match(/weblens\.ai/)\<close>\<close>

definition matchesAllowedReferrer :: "string \<Rightarrow> bool" where
  "matchesAllowedReferrer r = sublist ''weblens.ai'' r"

subsection \<open>The environment of a call\<close>

text \<open>
  What \<open>track\<close> reads and does not own: the browser globals (absent during server-side
  rendering), the user context, the settings of \<open>./env\<close> and \<open>./utils\<close> (not part of the
  sources at hand) and the two npm functions \<open>md5\<close> and \<open>uuidv4\<close>.
\<close>

record Location =
  hostname :: string
  pathname :: string
  protocol :: string

text \<open>
  \<open>window.history.state\<close> is \<open>null\<close> on an entry without a state object; reading
  \<open>.key\<close> of it throws. Otherwise \<open>StateKey k\<close> gives the property name \<open>k\<close> that
  \<open>window.history.state.key\<close> stands for in \<open>key in pageIds\<close> and \<open>pageIds[key]\<close>.
\<close>

datatype HistoryState = NullState | StateKey string

record Window =
  location :: Location
  referrer :: string
  history_state :: HistoryState

record CurrentUser =
  cur_org :: "string option"
  cur_id :: "string option"
  cur_role :: "string option"
  cur_effectiveAccountPlan :: "string option"
  cur_orgCreationDate :: "string option"

record Build =
  sha :: string
  date :: string
  lastVersion :: string

text \<open>The fields \<open>new Date()\<close> is read by in \<open>getOrGenerateSessionId\<close>.\<close>

record DateFields =
  getFullYear :: int
  getMonth :: int
  getDate :: int
  getHours :: int
  getMinutes :: int
  getSeconds :: int

record Env =
  window :: "Window option"
  getCurrentUser :: "CurrentUser option"
  getGrowthBookBuild :: Build
  hasFileConfig :: bool
  inTelemetryDebugMode :: bool
  isCloud :: bool
  isTelemetryEnabled :: bool
  dataWarehouseUrl :: string \<comment> \<open>empty when no warehouse is configured (the code tests truthiness)\<close>
  GB_SDK_ID :: string
  now :: DateFields
  fetch_exception :: "string option" \<comment> \<open>\<open>Some e\<close>: the call of \<open>fetch\<close> throws \<open>e\<close>\<close>
  lib_md5 :: "string \<Rightarrow> string"
  lib_uuidv4 :: "nat \<Rightarrow> string" \<comment> \<open>the token the \<open>n\<close>-th call of \<open>uuidv4\<close> returns\<close>

subsection \<open>State and effects\<close>

text \<open>
  A cookie's \<open>expires\<close> attribute is a number of days or a date, here the six arguments of
  \<open>new Date(y, m, d, h, min, s)\<close>.
\<close>

datatype Expires = Days nat | OnDate int int int int int int

record CookieAttributes =
  expires :: Expires
  sameSite :: string

record Cookie =
  cookie_value :: string
  cookie_attributes :: CookieAttributes

record JitsuOptions =
  jitsu_key :: string
  log_level :: string
  tracking_host :: string
  cookie_name :: string
  capture_3rd_party_cookies :: "string list option" \<comment> \<open>\<open>None\<close> is \<open>false\<close>\<close>
  randomize_url :: bool

datatype JitsuClient = jitsuClient JitsuOptions

text \<open>
  What \<open>getOrGeneratePageId\<close> returns: a token, or the value \<open>pageIds\<close> inherits under a name of
  \<open>Object.prototype\<close>.
\<close>

datatype PageId = PageToken string | InheritedProperty string

text \<open>
  The event posted to the warehouse. \<open>properties_json\<close> holds \<open>JSON.stringify(trackProps)\<close>,
  \<open>page_id\<close> what \<open>getOrGeneratePageId\<close> returned. The event itself is kept as a record, not
  as the text \<open>JSON.stringify(event)\<close> of the request body.
\<close>

record DataWarehouseTrackedEvent =
  event_name :: string
  properties_json :: "json option"
  device_id :: string
  page_id :: PageId
  session_id :: string
  sdk_language :: string
  sdk_version :: string
  url :: jsval
  user_id :: "string option"
  user_attributes_json :: string

text \<open>A call of \<open>fetch\<close>; \<open>fetch_body\<close> is the event given to \<open>JSON.stringify\<close>.\<close>

record FetchRequest =
  fetch_url :: string
  fetch_method :: string
  fetch_body :: DataWarehouseTrackedEvent
  fetch_headers :: "(string \<times> string) list"

datatype Effect =
    CookiesGet string
  | CookiesSet string string CookieAttributes
  | Fetch FetchRequest
  | ConsoleError string
  | ConsoleLog string string TrackEventProps
  | JitsuClientCreated JitsuOptions
  | JitsuTrack JitsuClient string TrackEventProps

text \<open>
  The mutable state the module works on: the browser's cookie jar, the module variables
  \<open>pageIds\<close> and \<open>jitsu\<close>, the number of tokens \<open>uuidv4\<close> has handed out, and the log of
  every call that leaves the module, oldest first.
\<close>

record State =
  cookies :: "string \<rightharpoonup> Cookie"
  pageIds :: "string \<rightharpoonup> string"
  jitsu :: "JitsuClient option"
  uuid_count :: nat
  effects :: "Effect list"

definition emit :: "Effect list \<Rightarrow> State \<Rightarrow> State" where
  "emit es s = s\<lparr>effects := effects s @ es\<rparr>"

definition uuidv4 :: "Env \<Rightarrow> State \<Rightarrow> string \<times> State" where
  "uuidv4 env s = (lib_uuidv4 env (uuid_count s), s\<lparr>uuid_count := Suc (uuid_count s)\<rparr>)"

text \<open>\<open>Cookies.get(name)\<close> and \<open>Cookies.set(name, value, attributes)\<close> of js-cookie.\<close>

definition Cookies_get :: "string \<Rightarrow> State \<Rightarrow> string option \<times> State" where
  "Cookies_get name s = (map_option cookie_value (cookies s name), emit [CookiesGet name] s)"

definition Cookies_set :: "string \<Rightarrow> string \<Rightarrow> CookieAttributes \<Rightarrow> State \<Rightarrow> State" where
  "Cookies_set name v attrs s =
     emit [CookiesSet name v attrs]
       (s\<lparr>cookies := (cookies s)(name \<mapsto> \<lparr>cookie_value = v, cookie_attributes = attrs\<rparr>)\<rparr>)"

subsection \<open>Identifiers\<close>

definition DEVICE_ID_COOKIE :: string where
  "DEVICE_ID_COOKIE = ''gb_device_id''"

definition SESSION_ID_COOKIE :: string where
  "SESSION_ID_COOKIE = ''gb_session_id''"

text \<open>\<open>Cookies.get(name) || uuidv4()\<close>: the cookie when it is a non-empty string.\<close>

definition cookie_or_uuid :: "Env \<Rightarrow> string \<Rightarrow> State \<Rightarrow> string \<times> State" where
  "cookie_or_uuid env name s =
     (let (c, s1) = Cookies_get name s
      in case c of
           None \<Rightarrow> uuidv4 env s1
         | Some v \<Rightarrow> if v = [] then uuidv4 env s1 else (v, s1))"

definition getOrGenerateDeviceId :: "Env \<Rightarrow> State \<Rightarrow> string \<times> State" where
  "getOrGenerateDeviceId env s =
     (let (deviceId, s1) = cookie_or_uuid env DEVICE_ID_COOKIE s
      in (deviceId,
          Cookies_set DEVICE_ID_COOKIE deviceId \<lparr>expires = Days 365, sameSite = ''strict''\<rparr> s1))"

text \<open>
  \<open>pageIds\<close> is a plain object, so \<open>key in pageIds\<close> also holds for the names it inherits from
  \<open>Object.prototype\<close>; for such a key nothing is generated and \<open>pageIds[key]\<close> is the inherited
  value, not a token.
\<close>

definition objectPrototypeNames :: "string list" where
  "objectPrototypeNames =
     [''constructor'', ''hasOwnProperty'', ''isPrototypeOf'', ''propertyIsEnumerable'',
      ''toLocaleString'', ''toString'', ''valueOf'', ''__proto__'', ''__defineGetter__'',
      ''__defineSetter__'', ''__lookupGetter__'', ''__lookupSetter__'']"

definition getOrGeneratePageId :: "Env \<Rightarrow> Window \<Rightarrow> State \<Rightarrow> (JSError + PageId) \<times> State" where
  "getOrGeneratePageId env w s =
     (case history_state w of
        NullState \<Rightarrow> (Inl TypeError, s)
      | StateKey k \<Rightarrow>
          (case pageIds s k of
             Some p \<Rightarrow> (Inr (PageToken p), s)
           | None \<Rightarrow>
               if k \<in> set objectPrototypeNames then (Inr (InheritedProperty k), s)
               else
                 (let (u, s1) = uuidv4 env s
                  in (Inr (PageToken u), s1\<lparr>pageIds := (pageIds s1)(k \<mapsto> u)\<rparr>))))"

definition getOrGenerateSessionId :: "Env \<Rightarrow> State \<Rightarrow> string \<times> State" where
  "getOrGenerateSessionId env s =
     (let (sessionId, s1) = cookie_or_uuid env SESSION_ID_COOKIE s;
          n = now env
      in (sessionId,
          Cookies_set SESSION_ID_COOKIE sessionId
            \<lparr>expires = OnDate (getFullYear n) (getMonth n) (getDate n) (getHours n)
                         (getMinutes n + 30) (getSeconds n),
             sameSite = ''strict''\<rparr> s1))"

subsection \<open>Formatting and dispatching an event\<close>

definition dataWareHouseTrack :: "Env \<Rightarrow> DataWarehouseTrackedEvent \<Rightarrow> State \<Rightarrow> State" where
  "dataWareHouseTrack env event s =
     (if dataWarehouseUrl env = [] then s
      else
        (let s1 = emit [Fetch \<lparr>fetch_url = dataWarehouseUrl env @ ''/track?client_key='' @ GB_SDK_ID env,
                               fetch_method = ''POST'',
                               fetch_body = event,
                               fetch_headers = [(''Accept'', ''application/json''),
                                                (''Content-Type'', ''application/json'')]\<rparr>] s
         in case fetch_exception env of
              None \<Rightarrow> s1
            | Some e \<Rightarrow>
                if inTelemetryDebugMode env
                then emit [ConsoleError ''Failed to fire tracking event'', ConsoleError e] s1
                else s1))"

text \<open>\<open>isLocalhost ? "localhost" : isCloud() ? "cloud" : "self-hosted"\<close>\<close>

definition maskedHost :: "Env \<Rightarrow> Window \<Rightarrow> string" where
  "maskedHost env w =
     (if isLocalhost (hostname (location w)) then ''localhost''
      else if isCloud env then ''cloud'' else ''self-hosted'')"

text \<open>\<open>x ? md5(x) : ""\<close>\<close>

definition md5_if_set :: "Env \<Rightarrow> string option \<Rightarrow> string" where
  "md5_if_set env x =
     (case x of None \<Rightarrow> [] | Some v \<Rightarrow> if v = [] then [] else lib_md5 env v)"

text \<open>
  The object literal \<open>{...props, page_url: ..., ...}\<close> of \<open>track\<close> makes a new object: it copies
  the caller's own properties in their order, then writes the derived ones in the order of
  the source, each replacing an earlier property of the same name.
\<close>

definition derivedProps :: "Env \<Rightarrow> Window \<Rightarrow> TrackEventProps" where
  "derivedProps env w =
     (let build = getGrowthBookBuild env;
          currentUser = getCurrentUser env;
          org = Option.bind currentUser cur_org;
          uid = Option.bind currentUser cur_id;
          role = Option.bind currentUser cur_role;
          effectiveAccountPlan = Option.bind currentUser cur_effectiveAccountPlan;
          orgCreationDate = Option.bind currentUser cur_orgCreationDate;
          host = maskedHost env w
      in [(''page_url'', Str (pathname (location w))),
          (''page_title'', Str []),
          (''source_ip'', Str []),
          (''url'', Str (protocol (location w) @ ''//'' @ host @ pathname (location w))),
          (''doc_host'', Str host),
          (''doc_search'', Str []),
          (''doc_path'', Str (pathname (location w))),
          (''referer'', Str (if matchesAllowedReferrer (referrer w) then referrer w else [])),
          (''build_sha'', Str (sha build)),
          (''build_date'', Str (date build)),
          (''build_version'', Str (lastVersion build)),
          (''account_plan'', opt_val effectiveAccountPlan),
          (''org_creation_date'', opt_val orgCreationDate),
          (''configFile'', Bool (hasFileConfig env)),
          (''role'', if truthy uid then opt_val role else Str []),
          (''org_hash'', Str (md5_if_set env org)),
          (''user_id_hash'', Str (md5_if_set env uid)),
          (''user_id'', if isCloud env then opt_val uid else Str []),
          (''org'', if isCloud env then opt_val org else Str [])])"

definition trackProps :: "Env \<Rightarrow> Window \<Rightarrow> TrackEventProps \<Rightarrow> TrackEventProps" where
  "trackProps env w props = fold (\<lambda>(k, v). AList.update k v) (props @ derivedProps env w) []"

definition jitsuOptions :: "Env \<Rightarrow> JitsuOptions" where
  "jitsuOptions env =
     \<lparr>jitsu_key = ''js.y6nea.yo6e8isxplieotd6zxyeu5'',
      log_level = ''ERROR'',
      tracking_host = ''https://t.growthbook.io'',
      cookie_name = ''__growthbookid'',
      capture_3rd_party_cookies = (if isCloud env then Some [''_ga''] else None),
      randomize_url = True\<rparr>"

text \<open>\<open>if (!jitsu) { jitsu = jitsuClient({...}); }\<close>, giving the client in use.\<close>

definition ensureJitsu :: "Env \<Rightarrow> State \<Rightarrow> JitsuClient \<times> State" where
  "ensureJitsu env s =
     (case jitsu s of
        Some c \<Rightarrow> (c, s)
      | None \<Rightarrow>
          (let c = jitsuClient (jitsuOptions env)
           in (c, emit [JitsuClientCreated (jitsuOptions env)] (s\<lparr>jitsu := Some c\<rparr>))))"

text \<open>
  \<open>track(event, props)\<close>. The arguments of \<open>dataWareHouseTrack\<close> are evaluated in the order
  of the object literal: \<open>JSON.stringify(trackProps)\<close> first, then the device id, the page id
  and the session id. An exception of \<open>JSON.stringify\<close> or of \<open>getOrGeneratePageId\<close> is not
  caught; it leaves \<open>track\<close> before anything is dispatched.
\<close>

definition track :: "Env \<Rightarrow> string \<Rightarrow> TrackEventProps \<Rightarrow> State \<Rightarrow> (JSError + unit) \<times> State" where
  "track env event props s =
     (case window env of
        None \<Rightarrow> (Inr (), s)
      | Some w \<Rightarrow>
          (let uid = Option.bind (getCurrentUser env) cur_id;
               tp = trackProps env w props
           in case JSON_stringify (Object tp) of
                Inl e \<Rightarrow> (Inl e, s)
              | Inr text_tp \<Rightarrow>
                  (let (deviceId, s1) = getOrGenerateDeviceId env s;
                       (r, s2) = getOrGeneratePageId env w s1
                   in case r of
                        Inl e \<Rightarrow> (Inl e, s2)
                      | Inr pageId \<Rightarrow>
                          (let (sessionId, s3) = getOrGenerateSessionId env s2;
                               s4 = dataWareHouseTrack env
                                      \<lparr>event_name = event,
                                       properties_json = text_tp,
                                       device_id = deviceId,
                                       page_id = pageId,
                                       session_id = sessionId,
                                       sdk_language = ''react'',
                                       sdk_version = ''1.2.0'',
                                       url = get_prop tp ''url'',
                                       user_id = uid,
                                       user_attributes_json = ''{}''\<rparr> s3;
                               s5 = (if inTelemetryDebugMode env
                                     then emit [ConsoleLog ''Telemetry Event - '' event tp] s4
                                     else s4)
                           in if \<not> isTelemetryEnabled env then (Inr (), s5)
                              else
                                (let (client, s6) = ensureJitsu env s5
                                 in (Inr (), emit [JitsuTrack client event tp] s6))))))"

text \<open>Calls of \<open>track\<close> one after the other in one process; an exception ends only its call.\<close>

fun track_calls :: "(Env \<times> string \<times> TrackEventProps) list \<Rightarrow> State \<Rightarrow> State" where
  "track_calls [] s = s"
| "track_calls ((env, event, props) # rest) s = track_calls rest (snd (track env event props s))"

section \<open>Back end: the update-experiment request handler\<close>

subsection \<open>Data\<close>

text \<open>
  A property of the request body is absent (\<open>undefined\<close>), \<open>null\<close> or a value; the handler
  tests \<open>!= null\<close>, which fails on the first two.
\<close>

datatype 'a field = Absent | IsNull | Given 'a

text \<open>The fields of an experiment the handler reads, and the rest of the document.\<close>

record ExperimentInterface =
  exp_id :: string
  trackingKey :: string
  datasource :: string
  exposureQueryId :: string
  exp_rest :: "(string \<times> jsval) list"

record ExposureQuery =
  query_id :: string
  query_rest :: "(string \<times> jsval) list"

text \<open>\<open>datasource.settings.queries?.exposure\<close>: both levels are optional.\<close>

record DataSourceQueries =
  exposure :: "ExposureQuery list option"

record DataSourceInterface =
  ds_id :: string
  settings_queries :: "DataSourceQueries option"

record UpdateExperimentBody =
  project :: "string field"
  assignmentQueryId :: "string field"
  body_trackingKey :: "string field"
  body_rest :: "(string \<times> jsval) list"

record Request =
  params_id :: string
  body :: UpdateExperimentBody

text \<open>
  A thrown error. The handler's own errors carry their message; the two others are thrown
  by \<open>ensureProjectsExist\<close> and \<open>throwPermissionError\<close>.
\<close>

datatype Error = Error string | ProjectsError | PermissionError

text \<open>
  The models, services and permissions the handler calls are not part of the sources at
  hand; they are parameters. The lookups read a database of type \<open>'db\<close>; only
  \<open>updateExperimentToDb\<close> returns a new one. \<open>ensureProjectsExist\<close> is \<open>False\<close> when it
  throws.
\<close>

record ('db, 'chg, 'api) DataLayer =
  getExperimentById :: "'db \<Rightarrow> string \<Rightarrow> ExperimentInterface option"
  ensureProjectsExist :: "'db \<Rightarrow> string list \<Rightarrow> bool"
  canUpdateExperiment :: "ExperimentInterface \<Rightarrow> UpdateExperimentBody \<Rightarrow> bool"
  getDataSourceById :: "'db \<Rightarrow> string \<Rightarrow> DataSourceInterface option"
  getExperimentByTrackingKey :: "'db \<Rightarrow> string \<Rightarrow> ExperimentInterface option"
  updateExperimentApiPayloadToInterface :: "UpdateExperimentBody \<Rightarrow> ExperimentInterface \<Rightarrow> 'chg"
  updateExperimentToDb :: "'db \<Rightarrow> ExperimentInterface \<Rightarrow> 'chg \<Rightarrow> ExperimentInterface option \<times> 'db"
  toExperimentApiInterface :: "'db \<Rightarrow> ExperimentInterface \<Rightarrow> 'api"

text \<open>The calls the handler makes, logged oldest first beside the database.\<close>

datatype Call =
    GetExperimentById string
  | EnsureProjectsExist "string list"
  | CanUpdateExperiment
  | GetDataSourceById string
  | GetExperimentByTrackingKey string
  | UpdateExperimentToDb
  | ToExperimentApiInterface

record 'db Server =
  db :: 'db
  calls :: "Call list"

definition called :: "Call \<Rightarrow> 'db Server \<Rightarrow> 'db Server" where
  "called c sv = sv\<lparr>calls := calls sv @ [c]\<rparr>"

subsection \<open>The handler\<close>

text \<open>
  \<open>req.body.assignmentQueryId != null && req.body.assignmentQueryId !== experiment.exposureQueryId
  && !datasource.settings.queries?.exposure?.some((q) => q.id === req.body.assignmentQueryId)\<close>
\<close>

definition unrecognizedAssignmentQuery ::
  "UpdateExperimentBody \<Rightarrow> ExperimentInterface \<Rightarrow> DataSourceInterface \<Rightarrow> bool" where
  "unrecognizedAssignmentQuery b experiment ds =
     (case assignmentQueryId b of
        Given a \<Rightarrow>
          a \<noteq> exposureQueryId experiment \<and>
          \<not> (case settings_queries ds of
                None \<Rightarrow> False
              | Some qs \<Rightarrow>
                  (case exposure qs of
                     None \<Rightarrow> False
                   | Some es \<Rightarrow> list_ex (\<lambda>q. query_id q = a) es))
      | _ \<Rightarrow> False)"

text \<open>The last steps: the update through the data layer and the answer.\<close>

definition applyUpdate ::
  "('db, 'chg, 'api) DataLayer \<Rightarrow> Request \<Rightarrow> ExperimentInterface \<Rightarrow> 'db Server \<Rightarrow>
     (Error + 'api) \<times> 'db Server" where
  "applyUpdate dl req experiment sv =
     (let (updatedExperiment, db') =
            updateExperimentToDb dl (db sv) experiment
              (updateExperimentApiPayloadToInterface dl (body req) experiment);
          sv1 = called UpdateExperimentToDb (sv\<lparr>db := db'\<rparr>)
      in case updatedExperiment of
           None \<Rightarrow> (Inl (Error ''Error happened during updating experiment.''), sv1)
         | Some u \<Rightarrow>
             (Inr (toExperimentApiInterface dl (db sv1) u), called ToExperimentApiInterface sv1))"

text \<open>The check of the tracking key, then the update.\<close>

definition checkTrackingKey ::
  "('db, 'chg, 'api) DataLayer \<Rightarrow> Request \<Rightarrow> ExperimentInterface \<Rightarrow> 'db Server \<Rightarrow>
     (Error + 'api) \<times> 'db Server" where
  "checkTrackingKey dl req experiment sv =
     (case body_trackingKey (body req) of
        Given tk \<Rightarrow>
          if tk \<noteq> trackingKey experiment then
            (let sv1 = called (GetExperimentByTrackingKey tk) sv
             in case getExperimentByTrackingKey dl (db sv) tk of
                  Some existingByTrackingKey \<Rightarrow>
                    (Inl (Error (''Experiment with tracking key already exists: '' @ tk)), sv1)
                | None \<Rightarrow> applyUpdate dl req experiment sv1)
          else applyUpdate dl req experiment sv
      | _ \<Rightarrow> applyUpdate dl req experiment sv)"

definition updateExperiment ::
  "('db, 'chg, 'api) DataLayer \<Rightarrow> Request \<Rightarrow> 'db Server \<Rightarrow> (Error + 'api) \<times> 'db Server" where
  "updateExperiment dl req sv =
     (let sv1 = called (GetExperimentById (params_id req)) sv
      in case getExperimentById dl (db sv) (params_id req) of
           None \<Rightarrow> (Inl (Error ''Could not find the experiment to update''), sv1)
         | Some experiment \<Rightarrow>
             (let checkProject = (case project (body req) of Given p \<Rightarrow> p \<noteq> [] | _ \<Rightarrow> False);
                  p = (case project (body req) of Given p \<Rightarrow> p | _ \<Rightarrow> []);
                  sv2 = (if checkProject then called (EnsureProjectsExist [p]) sv1 else sv1)
              in if checkProject \<and> \<not> ensureProjectsExist dl (db sv) [p]
                 then (Inl ProjectsError, sv2)
                 else
                   (let sv3 = called CanUpdateExperiment sv2
                    in if \<not> canUpdateExperiment dl experiment (body req)
                       then (Inl PermissionError, sv3)
                       else
                         (let sv4 = called (GetDataSourceById (datasource experiment)) sv3
                          in case getDataSourceById dl (db sv) (datasource experiment) of
                               None \<Rightarrow>
                                 (Inl (Error ''No datasource for this experiment was found.''), sv4)
                             | Some ds \<Rightarrow>
                                 if unrecognizedAssignmentQuery (body req) experiment ds
                                 then (Inl (Error (''Unrecognized assignment query ID: ''
                                                   @ (case assignmentQueryId (body req) of
                                                        Given a \<Rightarrow> a | _ \<Rightarrow> []))), sv4)
                                 else checkTrackingKey dl req experiment sv4))))"

section \<open>Observing a call of track\<close>

text \<open>
  What a call adds to the log, and the parts of it the properties speak about.
\<close>

fun fetches :: "Effect list \<Rightarrow> FetchRequest list" where
  "fetches [] = []"
| "fetches (Fetch r # es) = r # fetches es"
| "fetches (_ # es) = fetches es"

fun jitsuTracks :: "Effect list \<Rightarrow> (JitsuClient \<times> string \<times> TrackEventProps) list" where
  "jitsuTracks [] = []"
| "jitsuTracks (JitsuTrack c e p # es) = (c, e, p) # jitsuTracks es"
| "jitsuTracks (_ # es) = jitsuTracks es"

fun jitsuCreations :: "Effect list \<Rightarrow> JitsuOptions list" where
  "jitsuCreations [] = []"
| "jitsuCreations (JitsuClientCreated opts # es) = opts # jitsuCreations es"
| "jitsuCreations (_ # es) = jitsuCreations es"

text \<open>The effects one call of \<open>track\<close> adds to the log (the log only grows).\<close>

definition emitted :: "Env \<Rightarrow> string \<Rightarrow> TrackEventProps \<Rightarrow> State \<Rightarrow> Effect list" where
  "emitted env event props s = drop (length (effects s)) (effects (snd (track env event props s)))"

text \<open>
  The two ways a property bag leaves the browser: as the object handed to \<open>jitsu.track\<close>,
  and as the text \<open>properties_json\<close> of a request to the warehouse.
\<close>

definition forwardedProps :: "Effect list \<Rightarrow> TrackEventProps list" where
  "forwardedProps es = map (\<lambda>(c, e, p). p) (jitsuTracks es)"

definition postedProperties :: "Effect list \<Rightarrow> json option list" where
  "postedProperties es = map (\<lambda>r. properties_json (fetch_body r)) (fetches es)"

text \<open>The values an object, or a JSON object, holds under a key: one for a well-formed object.\<close>

definition entries :: "string \<Rightarrow> (string \<times> 'a) list \<Rightarrow> 'a list" where
  "entries k obj = map snd (filter (\<lambda>kv. fst kv = k) obj)"

text \<open>The request \<open>dataWareHouseTrack\<close> hands to \<open>fetch\<close> for an event, and all it adds to the log.\<close>

definition warehouseRequest :: "Env \<Rightarrow> DataWarehouseTrackedEvent \<Rightarrow> FetchRequest" where
  "warehouseRequest env event =
     \<lparr>fetch_url = dataWarehouseUrl env @ ''/track?client_key='' @ GB_SDK_ID env,
      fetch_method = ''POST'',
      fetch_body = event,
      fetch_headers = [(''Accept'', ''application/json''), (''Content-Type'', ''application/json'')]\<rparr>"

definition warehouseEffects :: "Env \<Rightarrow> DataWarehouseTrackedEvent \<Rightarrow> Effect list" where
  "warehouseEffects env event =
     (if dataWarehouseUrl env = [] then []
      else Fetch (warehouseRequest env event) #
           (case fetch_exception env of
              None \<Rightarrow> []
            | Some e \<Rightarrow>
                if inTelemetryDebugMode env
                then [ConsoleError ''Failed to fire tracking event'', ConsoleError e] else []))"

text \<open>
  The client that \<open>jitsu\<close> holds after \<open>if (!jitsu) jitsu = jitsuClient(...)\<close>, and what the
  last lines of \<open>track\<close> add to the log.
\<close>

definition clientInUse :: "Env \<Rightarrow> State \<Rightarrow> JitsuClient" where
  "clientInUse env s = (case jitsu s of Some c \<Rightarrow> c | None \<Rightarrow> jitsuClient (jitsuOptions env))"

definition jitsuEffects :: "Env \<Rightarrow> string \<Rightarrow> TrackEventProps \<Rightarrow> State \<Rightarrow> Effect list" where
  "jitsuEffects env event tp s =
     (if isTelemetryEnabled env
      then (if jitsu s = None then [JitsuClientCreated (jitsuOptions env)] else [])
           @ [JitsuTrack (clientInUse env s) event tp]
      else [])"

text \<open>
  The three identifiers in the order \<open>track\<close> asks for them (the page id only when
  \<open>getOrGeneratePageId\<close> returns), the event it builds for the warehouse from them and from
  the text of the properties, and what asking for them adds to the log.
\<close>

definition identifiers ::
  "Env \<Rightarrow> Window \<Rightarrow> State \<Rightarrow> (string \<times> PageId option \<times> string) \<times> State" where
  "identifiers env w s =
     (let (deviceId, s1) = getOrGenerateDeviceId env s;
          (r, s2) = getOrGeneratePageId env w s1;
          (sessionId, s3) = getOrGenerateSessionId env s2
      in ((deviceId, (case r of Inr p \<Rightarrow> Some p | Inl _ \<Rightarrow> None), sessionId), s3))"

definition warehouseEvent ::
  "Env \<Rightarrow> Window \<Rightarrow> string \<Rightarrow> TrackEventProps \<Rightarrow> json option \<Rightarrow> PageId \<Rightarrow> State \<Rightarrow>
     DataWarehouseTrackedEvent" where
  "warehouseEvent env w event props text_tp pageId s =
     \<lparr>event_name = event,
      properties_json = text_tp,
      device_id = fst (fst (identifiers env w s)),
      page_id = pageId,
      session_id = snd (snd (fst (identifiers env w s))),
      sdk_language = ''react'',
      sdk_version = ''1.2.0'',
      url = get_prop (trackProps env w props) ''url'',
      user_id = Option.bind (getCurrentUser env) cur_id,
      user_attributes_json = ''{}''\<rparr>"

definition identifierEffects :: "Env \<Rightarrow> Window \<Rightarrow> State \<Rightarrow> Effect list" where
  "identifierEffects env w s =
     [CookiesGet DEVICE_ID_COOKIE,
      CookiesSet DEVICE_ID_COOKIE (fst (fst (identifiers env w s)))
        \<lparr>expires = Days 365, sameSite = ''strict''\<rparr>,
      CookiesGet SESSION_ID_COOKIE,
      CookiesSet SESSION_ID_COOKIE (snd (snd (fst (identifiers env w s))))
        \<lparr>expires = OnDate (getFullYear (now env)) (getMonth (now env)) (getDate (now env))
                     (getHours (now env)) (getMinutes (now env) + 30) (getSeconds (now env)),
         sameSite = ''strict''\<rparr>]"

text \<open>
  A call gets as far as dispatching when it runs in a browser and neither \<open>JSON.stringify\<close>
  nor \<open>getOrGeneratePageId\<close> throws.
\<close>

definition reachesDispatch :: "Env \<Rightarrow> TrackEventProps \<Rightarrow> bool" where
  "reachesDispatch env props =
     (case window env of
        None \<Rightarrow> False
      | Some w \<Rightarrow>
          history_state w \<noteq> NullState
          \<and> (case JSON_stringify (Object (trackProps env w props)) of Inl e \<Rightarrow> False | Inr t \<Rightarrow> True))"

text \<open>
  The third-party client was created at most once, and every event forwarded so far went
  to the client the module variable holds.
\<close>

definition oneClient :: "State \<Rightarrow> bool" where
  "oneClient s \<longleftrightarrow>
     (jitsu s = None \<longrightarrow> jitsuCreations (effects s) = [])
     \<and> length (jitsuCreations (effects s)) \<le> 1
     \<and> (\<forall>c e p. (c, e, p) \<in> set (jitsuTracks (effects s)) \<longrightarrow> jitsu s = Some c)"

text \<open>Calls of \<open>getOrGenerateDeviceId\<close> one after the other, with the identifiers they return.\<close>

fun deviceId_calls :: "Env list \<Rightarrow> State \<Rightarrow> string list \<times> State" where
  "deviceId_calls [] s = ([], s)"
| "deviceId_calls (env # envs) s =
     (let (d, s1) = getOrGenerateDeviceId env s;
          (ds, s2) = deviceId_calls envs s1
      in (d # ds, s2))"

subsection \<open>A sample environment\<close>

text \<open>
  A self-hosted deployment with a warehouse configured and telemetry enabled, a signed-in
  user and a process that has not tracked anything yet; then variations of it.
\<close>

definition exampleWindow :: Window where
  "exampleWindow =
     \<lparr>location = \<lparr>hostname = ''growth.example.com'', pathname = ''/features'', protocol = ''https:''\<rparr>,
      referrer = ''https://www.weblens.ai/docs'',
      history_state = StateKey ''k1''\<rparr>"

definition exampleUser :: CurrentUser where
  "exampleUser =
     \<lparr>cur_org = Some ''org_1'', cur_id = Some ''u_1'', cur_role = Some ''admin'',
      cur_effectiveAccountPlan = Some ''pro'', cur_orgCreationDate = None\<rparr>"

definition exampleEnv :: Env where
  "exampleEnv =
     \<lparr>window = Some exampleWindow,
      getCurrentUser = Some exampleUser,
      getGrowthBookBuild = \<lparr>sha = ''abc'', date = ''2024-01-01'', lastVersion = ''2.7.0''\<rparr>,
      hasFileConfig = False,
      inTelemetryDebugMode = False,
      isCloud = False,
      isTelemetryEnabled = True,
      dataWarehouseUrl = ''https://w.example.com'',
      GB_SDK_ID = ''sdk-1'',
      now = \<lparr>getFullYear = 2024, getMonth = 0, getDate = 1, getHours = 10, getMinutes = 45,
             getSeconds = 0\<rparr>,
      fetch_exception = None,
      lib_md5 = (\<lambda>x. ''md5:'' @ x),
      lib_uuidv4 = (\<lambda>n. ''uuid-'' @ replicate n CHR ''x'')\<rparr>"

definition freshState :: State where
  "freshState = \<lparr>cookies = Map.empty, pageIds = Map.empty, jitsu = None, uuid_count = 0, effects = []\<rparr>"

definition nosyProps :: TrackEventProps where
  "nosyProps = [(''page_title'', Str ''Quarterly numbers''), (''doc_search'', Str ''?token=1''),
                (''source_ip'', Str ''10.0.0.7''), (''button'', Str ''save'')]"

definition otherReferrerEnv :: Env where
  "otherReferrerEnv = exampleEnv\<lparr>window := Some (exampleWindow\<lparr>referrer := ''https://search.example.org/?q=ab''\<rparr>)\<rparr>"

definition localWindow :: Window where
  "localWindow =
     exampleWindow\<lparr>location := \<lparr>hostname = ''Dev.LocalHost'', pathname = ''/features'', protocol = ''http:''\<rparr>\<rparr>"

definition localCloudEnv :: Env where
  "localCloudEnv = exampleEnv\<lparr>isCloud := True, window := Some localWindow\<rparr>"

definition nullStateEnv :: Env where
  "nullStateEnv = exampleEnv\<lparr>window := Some (exampleWindow\<lparr>history_state := NullState\<rparr>)\<rparr>"

definition twoCalls :: "(Env \<times> string \<times> TrackEventProps) list" where
  "twoCalls = [(exampleEnv, ''View'', nosyProps), (localCloudEnv, ''Click'', [])]"

text \<open>The sample deployment on the managed cloud.\<close>

definition cloudEnv :: Env where
  "cloudEnv = exampleEnv\<lparr>isCloud := True\<rparr>"

text \<open>A referrer from another site that names the allow-listed domain in its query.\<close>

definition evilWindow :: Window where
  "evilWindow = exampleWindow\<lparr>referrer := ''https://evil.example.org/?ref=weblens.ai''\<rparr>"

definition evilReferrerEnv :: Env where
  "evilReferrerEnv = exampleEnv\<lparr>window := Some evilWindow\<rparr>"

text \<open>Caller properties with a \<open>toJSON\<close> function, and with a value \<open>JSON.stringify\<close> rejects.\<close>

definition toJSONProps :: TrackEventProps where
  "toJSONProps =
     [(''button'', Str ''save''),
      (''toJSON'', Function (Object [(''page_title'', Str ''Quarterly numbers''),
                                      (''doc_search'', Str ''?token=1'')]))]"

definition bigIntProps :: TrackEventProps where
  "bigIntProps = [(''button'', Str ''save''), (''count'', BigInt 3)]"

text \<open>Caller properties whose \<open>toJSON\<close> returns the address of the page.\<close>

definition hostProps :: TrackEventProps where
  "hostProps =
     [(''toJSON'', Function (Object [(''doc_host'', Str ''growth.example.com''),
                                      (''url'', Str ''https://growth.example.com/features'')]))]"

section \<open>Observing a call of the handler\<close>

text \<open>The calls a request adds to the log (the log only grows).\<close>

definition newCalls :: "('db, 'chg, 'api) DataLayer \<Rightarrow> Request \<Rightarrow> 'db Server \<Rightarrow> Call list" where
  "newCalls dl req sv = drop (length (calls sv)) (calls (snd (updateExperiment dl req sv)))"

text \<open>
  The check of the project passes: the body names no project (or an empty one), or
  \<open>ensureProjectsExist\<close> does not throw.
\<close>

definition projectsOk :: "('db, 'chg, 'api) DataLayer \<Rightarrow> Request \<Rightarrow> 'db Server \<Rightarrow> bool" where
  "projectsOk dl req sv =
     (case project (body req) of
        Given p \<Rightarrow> p = [] \<or> ensureProjectsExist dl (db sv) [p]
      | _ \<Rightarrow> True)"

text \<open>
  The call the check of the project makes: \<open>ensureProjectsExist([project])\<close> when the body
  has a non-empty project, none otherwise.
\<close>

definition projectCalls :: "Request \<Rightarrow> Call list" where
  "projectCalls req =
     (case project (body req) of
        Given p \<Rightarrow> if p = [] then [] else [EnsureProjectsExist [p]]
      | _ \<Rightarrow> [])"

text \<open>The ids of the exposure queries a datasource is configured with.\<close>

definition configuredExposureQueryIds :: "DataSourceInterface \<Rightarrow> string list" where
  "configuredExposureQueryIds ds =
     (case settings_queries ds of
        None \<Rightarrow> []
      | Some qs \<Rightarrow> (case exposure qs of None \<Rightarrow> [] | Some es \<Rightarrow> map query_id es))"

subsection \<open>A sample data layer\<close>

text \<open>
  A data layer over lists held in memory; \<open>allowed\<close> is the answer of the permission
  check. An update replaces the tracking key and the exposure query of the experiment.
\<close>

record MemDb =
  experiments :: "ExperimentInterface list"
  datasources :: "DataSourceInterface list"
  projects :: "string list"

definition applyBody :: "UpdateExperimentBody \<Rightarrow> ExperimentInterface \<Rightarrow> ExperimentInterface" where
  "applyBody b e =
     e\<lparr>trackingKey := (case body_trackingKey b of Given k \<Rightarrow> k | _ \<Rightarrow> trackingKey e),
       exposureQueryId := (case assignmentQueryId b of Given a \<Rightarrow> a | _ \<Rightarrow> exposureQueryId e)\<rparr>"

definition memLayer :: "bool \<Rightarrow> (MemDb, UpdateExperimentBody, ExperimentInterface) DataLayer" where
  "memLayer allowed =
     \<lparr>getExperimentById = (\<lambda>d i. find (\<lambda>e. exp_id e = i) (experiments d)),
      ensureProjectsExist = (\<lambda>d ps. list_all (\<lambda>p. p \<in> set (projects d)) ps),
      canUpdateExperiment = (\<lambda>e b. allowed),
      getDataSourceById = (\<lambda>d i. find (\<lambda>s. ds_id s = i) (datasources d)),
      getExperimentByTrackingKey = (\<lambda>d k. find (\<lambda>e. trackingKey e = k) (experiments d)),
      updateExperimentApiPayloadToInterface = (\<lambda>b e. b),
      updateExperimentToDb =
        (\<lambda>d e b. (Some (applyBody b e),
                  d\<lparr>experiments := map (\<lambda>x. if exp_id x = exp_id e then applyBody b e else x)
                                       (experiments d)\<rparr>)),
      toExperimentApiInterface = (\<lambda>d e. e)\<rparr>"

definition exp1 :: ExperimentInterface where
  "exp1 = \<lparr>exp_id = ''exp_1'', trackingKey = ''checkout-v1'', datasource = ''ds_1'',
           exposureQueryId = ''user_id'', exp_rest = []\<rparr>"

definition exp2 :: ExperimentInterface where
  "exp2 = \<lparr>exp_id = ''exp_2'', trackingKey = ''pricing-v2'', datasource = ''ds_1'',
           exposureQueryId = ''user_id'', exp_rest = []\<rparr>"

definition ds1 :: DataSourceInterface where
  "ds1 = \<lparr>ds_id = ''ds_1'',
          settings_queries = Some \<lparr>exposure = Some [\<lparr>query_id = ''user_id'', query_rest = []\<rparr>,
                                                     \<lparr>query_id = ''anonymous_id'', query_rest = []\<rparr>]\<rparr>\<rparr>"

definition memServer :: "MemDb Server" where
  "memServer = \<lparr>db = \<lparr>experiments = [exp1, exp2], datasources = [ds1], projects = [''prj_1'']\<rparr>,
                calls = []\<rparr>"

definition emptyBody :: UpdateExperimentBody where
  "emptyBody = \<lparr>project = Absent, assignmentQueryId = Absent, body_trackingKey = Absent, body_rest = []\<rparr>"

definition duplicateKeyRequest :: Request where
  "duplicateKeyRequest = \<lparr>params_id = ''exp_1'', body = emptyBody\<lparr>body_trackingKey := Given ''pricing-v2''\<rparr>\<rparr>"

definition sameKeyRequest :: Request where
  "sameKeyRequest = \<lparr>params_id = ''exp_1'', body = emptyBody\<lparr>body_trackingKey := Given ''checkout-v1''\<rparr>\<rparr>"

definition unknownQueryRequest :: Request where
  "unknownQueryRequest = \<lparr>params_id = ''exp_1'', body = emptyBody\<lparr>assignmentQueryId := Given ''device_id''\<rparr>\<rparr>"

definition nullQueryRequest :: Request where
  "nullQueryRequest = \<lparr>params_id = ''exp_1'', body = emptyBody\<lparr>assignmentQueryId := IsNull\<rparr>\<rparr>"

section \<open>Properties\<close>

subsection \<open>The effects of the parts of track\<close>

lemma fetches_append: "fetches (xs @ ys) = fetches xs @ fetches ys"
  by (induction xs rule: fetches.induct) auto

lemma jitsuTracks_append: "jitsuTracks (xs @ ys) = jitsuTracks xs @ jitsuTracks ys"
  by (induction xs rule: jitsuTracks.induct) auto

lemma jitsuCreations_append: "jitsuCreations (xs @ ys) = jitsuCreations xs @ jitsuCreations ys"
  by (induction xs rule: jitsuCreations.induct) auto

lemma effects_emit: "effects (emit es s) = effects s @ es"
  by (simp add: emit_def)

lemma jitsu_emit: "jitsu (emit es s) = jitsu s"
  by (simp add: emit_def)

lemma cookie_or_uuid_effects:
  "effects (snd (cookie_or_uuid env n s)) = effects s @ [CookiesGet n]"
  by (simp add: cookie_or_uuid_def Cookies_get_def uuidv4_def emit_def split: option.splits)

lemma cookie_or_uuid_jitsu: "jitsu (snd (cookie_or_uuid env n s)) = jitsu s"
  by (simp add: cookie_or_uuid_def Cookies_get_def uuidv4_def emit_def split: option.splits)

lemma getOrGenerateDeviceId_effects:
  "effects (snd (getOrGenerateDeviceId env s)) =
     effects s @ [CookiesGet DEVICE_ID_COOKIE,
                  CookiesSet DEVICE_ID_COOKIE (fst (getOrGenerateDeviceId env s))
                    \<lparr>expires = Days 365, sameSite = ''strict''\<rparr>]"
  by (simp add: getOrGenerateDeviceId_def Cookies_set_def emit_def cookie_or_uuid_effects split_beta)

lemma getOrGenerateDeviceId_jitsu: "jitsu (snd (getOrGenerateDeviceId env s)) = jitsu s"
  by (simp add: getOrGenerateDeviceId_def Cookies_set_def emit_def cookie_or_uuid_jitsu split_beta)

lemma getOrGenerateSessionId_effects:
  "effects (snd (getOrGenerateSessionId env s)) =
     effects s @ [CookiesGet SESSION_ID_COOKIE,
                  CookiesSet SESSION_ID_COOKIE (fst (getOrGenerateSessionId env s))
                    \<lparr>expires = OnDate (getFullYear (now env)) (getMonth (now env)) (getDate (now env))
                         (getHours (now env)) (getMinutes (now env) + 30) (getSeconds (now env)),
             sameSite = ''strict''\<rparr>]"
  by (simp add: getOrGenerateSessionId_def Cookies_set_def emit_def cookie_or_uuid_effects split_beta Let_def)

lemma getOrGenerateSessionId_jitsu: "jitsu (snd (getOrGenerateSessionId env s)) = jitsu s"
  by (simp add: getOrGenerateSessionId_def Cookies_set_def emit_def cookie_or_uuid_jitsu split_beta Let_def)

lemma getOrGeneratePageId_effects: "effects (snd (getOrGeneratePageId env w s)) = effects s"
  by (simp add: getOrGeneratePageId_def uuidv4_def split: HistoryState.splits option.splits)

lemma getOrGeneratePageId_jitsu: "jitsu (snd (getOrGeneratePageId env w s)) = jitsu s"
  by (simp add: getOrGeneratePageId_def uuidv4_def split: HistoryState.splits option.splits)

lemma getOrGeneratePageId_Inl:
  "fst (getOrGeneratePageId env w s) = Inl e \<longleftrightarrow> history_state w = NullState"
  by (cases e) (simp add: getOrGeneratePageId_def uuidv4_def split: HistoryState.splits option.splits)

lemma dataWareHouseTrack_effects:
  "effects (dataWareHouseTrack env event s) = effects s @ warehouseEffects env event"
  by (simp add: dataWareHouseTrack_def emit_def warehouseRequest_def warehouseEffects_def Let_def
      split: option.splits)

lemma dataWareHouseTrack_jitsu: "jitsu (dataWareHouseTrack env event s) = jitsu s"
  by (simp add: dataWareHouseTrack_def emit_def Let_def split: option.splits)

lemma ensureJitsu_effects:
  "effects (snd (ensureJitsu env s)) =
     effects s @ (if jitsu s = None then [JitsuClientCreated (jitsuOptions env)] else [])"
  by (simp add: ensureJitsu_def emit_def Let_def split: option.splits)

lemma ensureJitsu_client: "fst (ensureJitsu env s) = clientInUse env s"
  by (simp add: ensureJitsu_def clientInUse_def emit_def Let_def split: option.splits)

lemma ensureJitsu_jitsu: "jitsu (snd (ensureJitsu env s)) = Some (clientInUse env s)"
  by (simp add: ensureJitsu_def clientInUse_def emit_def Let_def split: option.splits)

lemma identifiers_jitsu: "jitsu (snd (identifiers env w s)) = jitsu s"
  by (simp add: identifiers_def split_beta getOrGenerateDeviceId_jitsu getOrGeneratePageId_jitsu
      getOrGenerateSessionId_jitsu)

lemma identifiers_effects:
  "effects (snd (identifiers env w s)) = effects s @ identifierEffects env w s"
  by (simp add: identifiers_def identifierEffects_def split_beta getOrGenerateDeviceId_effects
      getOrGeneratePageId_effects getOrGenerateSessionId_effects)

lemma track_browser:
  assumes "window env = Some w"
    and "JSON_stringify (Object (trackProps env w props)) = Inr text_tp"
    and "fst (getOrGeneratePageId env w (snd (getOrGenerateDeviceId env s))) = Inr pageId"
  shows "track env event props s =
     (let tp = trackProps env w props;
          s4 = dataWareHouseTrack env (warehouseEvent env w event props text_tp pageId s)
                 (snd (identifiers env w s));
          s5 = (if inTelemetryDebugMode env
                then emit [ConsoleLog ''Telemetry Event - '' event tp] s4 else s4)
      in if \<not> isTelemetryEnabled env then (Inr (), s5)
         else (Inr (), emit [JitsuTrack (fst (ensureJitsu env s5)) event tp] (snd (ensureJitsu env s5))))"
  using assms
  by (simp add: track_def identifiers_def warehouseEvent_def split_beta Let_def)

lemma pageId_returns:
  assumes "history_state w = StateKey k"
  shows "\<exists>pageId. fst (getOrGeneratePageId env w s) = Inr pageId"
  using assms getOrGeneratePageId_Inl [of env w s]
  by (cases "fst (getOrGeneratePageId env w s)") auto

lemma track_effects:
  assumes "window env = Some w"
    and "JSON_stringify (Object (trackProps env w props)) = Inr text_tp"
    and "fst (getOrGeneratePageId env w (snd (getOrGenerateDeviceId env s))) = Inr pageId"
  shows "effects (snd (track env event props s)) =
     effects s @ identifierEffects env w s
       @ warehouseEffects env (warehouseEvent env w event props text_tp pageId s)
       @ (if inTelemetryDebugMode env
          then [ConsoleLog ''Telemetry Event - '' event (trackProps env w props)] else [])
       @ jitsuEffects env event (trackProps env w props) s"
  by (simp add: track_browser [OF assms] Let_def effects_emit ensureJitsu_effects ensureJitsu_client
      dataWareHouseTrack_effects dataWareHouseTrack_jitsu identifiers_effects identifiers_jitsu
      jitsu_emit jitsuEffects_def clientInUse_def)

lemma track_jitsu:
  assumes "window env = Some w"
    and "JSON_stringify (Object (trackProps env w props)) = Inr text_tp"
    and "fst (getOrGeneratePageId env w (snd (getOrGenerateDeviceId env s))) = Inr pageId"
  shows "jitsu (snd (track env event props s)) =
     (if isTelemetryEnabled env then Some (clientInUse env s) else jitsu s)"
  by (simp add: track_browser [OF assms] Let_def ensureJitsu_jitsu ensureJitsu_client
      dataWareHouseTrack_jitsu identifiers_jitsu jitsu_emit clientInUse_def)

lemma track_stringify_throws:
  assumes "window env = Some w"
    and "JSON_stringify (Object (trackProps env w props)) = Inl e"
  shows "track env event props s = (Inl e, s)"
  using assms by (simp add: track_def Let_def)

lemma track_null_state:
  assumes "window env = Some w"
    and "JSON_stringify (Object (trackProps env w props)) = Inr text_tp"
    and "history_state w = NullState"
  shows "track env event props s = (Inl TypeError, snd (getOrGenerateDeviceId env s))"
  using assms by (simp add: track_def split_beta Let_def getOrGeneratePageId_def)

lemma track_no_window:
  assumes "window env = None"
  shows "track env event props s = (Inr (), s)"
  using assms by (simp add: track_def)

subsection \<open>What a call of track dispatches\<close>

lemma track_effects_emitted:
  "effects (snd (track env event props s)) = effects s @ emitted env event props s"
proof (cases "window env")
  case None
  then show ?thesis by (simp add: emitted_def track_no_window)
next
  case (Some w)
  show ?thesis
  proof (cases "JSON_stringify (Object (trackProps env w props))")
    case (Inl e)
    then show ?thesis
      using Some by (simp add: emitted_def track_stringify_throws)
  next
    case (Inr text_tp)
    show ?thesis
    proof (cases "fst (getOrGeneratePageId env w (snd (getOrGenerateDeviceId env s)))")
      case (Inl e)
      then have "history_state w = NullState"
        by (simp add: getOrGeneratePageId_Inl)
      then show ?thesis
        using Some Inr by (simp add: emitted_def track_null_state getOrGenerateDeviceId_effects)
    next
      case pid: (Inr pageId)
      show ?thesis
        using Some Inr pid by (simp add: emitted_def track_effects)
    qed
  qed
qed

lemma emitted_browser:
  assumes "window env = Some w"
    and "JSON_stringify (Object (trackProps env w props)) = Inr text_tp"
    and "fst (getOrGeneratePageId env w (snd (getOrGenerateDeviceId env s))) = Inr pageId"
  shows "emitted env event props s =
     identifierEffects env w s
       @ warehouseEffects env (warehouseEvent env w event props text_tp pageId s)
       @ (if inTelemetryDebugMode env
          then [ConsoleLog ''Telemetry Event - '' event (trackProps env w props)] else [])
       @ jitsuEffects env event (trackProps env w props) s"
  by (simp add: emitted_def track_effects [OF assms])

lemma emitted_stringify_throws:
  assumes "window env = Some w"
    and "JSON_stringify (Object (trackProps env w props)) = Inl e"
  shows "emitted env event props s = []"
  by (simp add: emitted_def track_stringify_throws [OF assms])

lemma emitted_null_state:
  assumes "window env = Some w"
    and "JSON_stringify (Object (trackProps env w props)) = Inr text_tp"
    and "history_state w = NullState"
  shows "emitted env event props s =
     [CookiesGet DEVICE_ID_COOKIE,
      CookiesSet DEVICE_ID_COOKIE (fst (getOrGenerateDeviceId env s))
        \<lparr>expires = Days 365, sameSite = ''strict''\<rparr>]"
  by (simp add: emitted_def track_null_state [OF assms] getOrGenerateDeviceId_effects)

lemma emitted_no_window: "window env = None \<Longrightarrow> emitted env event props s = []"
  by (simp add: emitted_def track_no_window)

lemma identifierEffects_obs:
  "fetches (identifierEffects env w s) = []"
  "jitsuTracks (identifierEffects env w s) = []"
  "jitsuCreations (identifierEffects env w s) = []"
  by (simp_all add: identifierEffects_def)

lemma warehouseEffects_obs:
  "fetches (warehouseEffects env e) = (if dataWarehouseUrl env = [] then [] else [warehouseRequest env e])"
  "jitsuTracks (warehouseEffects env e) = []"
  "jitsuCreations (warehouseEffects env e) = []"
  by (simp_all add: warehouseEffects_def warehouseRequest_def split: option.splits)

lemma jitsuEffects_obs:
  "fetches (jitsuEffects env event tp s) = []"
  "jitsuTracks (jitsuEffects env event tp s) = (if isTelemetryEnabled env then [(clientInUse env s, event, tp)] else [])"
  "jitsuCreations (jitsuEffects env event tp s) = (if isTelemetryEnabled env \<and> jitsu s = None then [jitsuOptions env] else [])"
  by (simp_all add: jitsuEffects_def)

lemma warehouseEvent_fields:
  "event_name (warehouseEvent env w event props text_tp pageId s) = event"
  "properties_json (warehouseEvent env w event props text_tp pageId s) = text_tp"
  "page_id (warehouseEvent env w event props text_tp pageId s) = pageId"
  "url (warehouseEvent env w event props text_tp pageId s) = get_prop (trackProps env w props) ''url''"
  "user_id (warehouseEvent env w event props text_tp pageId s) = Option.bind (getCurrentUser env) cur_id"
  by (simp_all add: warehouseEvent_def)

lemma fetches_emitted:
  assumes "window env = Some w"
    and "JSON_stringify (Object (trackProps env w props)) = Inr text_tp"
    and "fst (getOrGeneratePageId env w (snd (getOrGenerateDeviceId env s))) = Inr pageId"
  shows "fetches (emitted env event props s) =
     (if dataWarehouseUrl env = [] then []
      else [warehouseRequest env (warehouseEvent env w event props text_tp pageId s)])"
  by (simp add: emitted_browser [OF assms] fetches_append identifierEffects_obs
      warehouseEffects_obs jitsuEffects_obs)

lemma jitsuTracks_emitted:
  assumes "window env = Some w"
    and "JSON_stringify (Object (trackProps env w props)) = Inr text_tp"
    and "fst (getOrGeneratePageId env w (snd (getOrGenerateDeviceId env s))) = Inr pageId"
  shows "jitsuTracks (emitted env event props s) =
     (if isTelemetryEnabled env then [(clientInUse env s, event, trackProps env w props)] else [])"
  by (simp add: emitted_browser [OF assms] jitsuTracks_append identifierEffects_obs
      warehouseEffects_obs jitsuEffects_obs)

lemma jitsuCreations_emitted:
  assumes "window env = Some w"
    and "JSON_stringify (Object (trackProps env w props)) = Inr text_tp"
    and "fst (getOrGeneratePageId env w (snd (getOrGenerateDeviceId env s))) = Inr pageId"
  shows "jitsuCreations (emitted env event props s) =
     (if isTelemetryEnabled env \<and> jitsu s = None then [jitsuOptions env] else [])"
  by (simp add: emitted_browser [OF assms] jitsuCreations_append identifierEffects_obs
      warehouseEffects_obs jitsuEffects_obs)

text \<open>Whatever is dispatched is the bag, or its text, and the masked url.\<close>

lemma dispatch_of_bag:
  assumes "window env = Some w"
  shows "tp \<in> set (forwardedProps (emitted env event props s)) \<Longrightarrow> tp = trackProps env w props"
    and "r \<in> set (fetches (emitted env event props s)) \<Longrightarrow>
           JSON_stringify (Object (trackProps env w props)) = Inr (properties_json (fetch_body r))
           \<and> url (fetch_body r) = get_prop (trackProps env w props) ''url''
           \<and> user_id (fetch_body r) = Option.bind (getCurrentUser env) cur_id
           \<and> event_name (fetch_body r) = event"
proof -
  consider (thr) e where "JSON_stringify (Object (trackProps env w props)) = Inl e"
    | (nul) t where "JSON_stringify (Object (trackProps env w props)) = Inr t"
        "history_state w = NullState"
    | (ok) t p where "JSON_stringify (Object (trackProps env w props)) = Inr t"
        "fst (getOrGeneratePageId env w (snd (getOrGenerateDeviceId env s))) = Inr p"
  proof (cases "JSON_stringify (Object (trackProps env w props))")
    case (Inl e)
    then show ?thesis by (rule thr)
  next
    case (Inr t)
    show ?thesis
    proof (cases "fst (getOrGeneratePageId env w (snd (getOrGenerateDeviceId env s)))")
      case (Inl e)
      then have "history_state w = NullState"
        by (simp add: getOrGeneratePageId_Inl)
      with Inr show ?thesis by (rule nul)
    next
      case p: (Inr p)
      from Inr p show ?thesis by (rule ok)
    qed
  qed
  note cases = this
  {
    assume a: "tp \<in> set (forwardedProps (emitted env event props s))"
    from cases show "tp = trackProps env w props"
    proof cases
      case thr
      with a assms show ?thesis by (simp add: emitted_stringify_throws forwardedProps_def)
    next
      case nul
      with a assms show ?thesis by (simp add: emitted_null_state forwardedProps_def)
    next
      case ok
      with a assms show ?thesis
        by (auto simp: jitsuTracks_emitted forwardedProps_def split: if_splits)
    qed
  }
  {
    assume a: "r \<in> set (fetches (emitted env event props s))"
    from cases show "JSON_stringify (Object (trackProps env w props)) = Inr (properties_json (fetch_body r))
           \<and> url (fetch_body r) = get_prop (trackProps env w props) ''url''
           \<and> user_id (fetch_body r) = Option.bind (getCurrentUser env) cur_id
           \<and> event_name (fetch_body r) = event"
    proof cases
      case thr
      with a assms show ?thesis by (simp add: emitted_stringify_throws)
    next
      case nul
      with a assms show ?thesis by (simp add: emitted_null_state)
    next
      case ok
      with a assms show ?thesis
        by (auto simp: fetches_emitted warehouseRequest_def warehouseEvent_fields split: if_splits)
    qed
  }
qed

subsection \<open>The property bag\<close>

lemma map_of_fold_update:
  "map_of (fold (\<lambda>(k, v). AList.update k v) xs acc) = map_of acc ++ map_of (rev xs)"
  by (induction xs arbitrary: acc) (auto simp: update_conv' map_add_def fun_eq_iff split: option.splits)

lemma distinct_fold_update:
  "distinct (map fst acc) \<Longrightarrow> distinct (map fst (fold (\<lambda>(k, v). AList.update k v) xs acc))"
  by (induction xs arbitrary: acc) (auto simp: distinct_update)

lemma distinct_trackProps: "distinct (map fst (trackProps env w props))"
  by (simp add: trackProps_def distinct_fold_update)

lemma map_of_trackProps:
  "map_of (trackProps env w props) k =
     (case map_of (rev (derivedProps env w)) k of
        Some v \<Rightarrow> Some v
      | None \<Rightarrow> map_of (rev props) k)"
  by (simp add: trackProps_def map_of_fold_update map_add_def split: option.splits)

lemma entries_distinct:
  "distinct (map fst al) \<Longrightarrow> map_of al k = Some v \<Longrightarrow> entries k al = [v]"
proof (induction al)
  case Nil
  then show ?case by simp
next
  case (Cons a al)
  show ?case
  proof (cases "fst a = k")
    case True
    then have "filter (\<lambda>kv. fst kv = k) al = []"
      using Cons.prems(1) by (force simp: filter_empty_conv image_iff)
    then show ?thesis
      using True Cons.prems(2) by (cases a) (simp add: entries_def)
  next
    case False
    then show ?thesis
      using Cons by (cases a) (simp add: entries_def)
  qed
qed

lemma trackProps_entry:
  assumes "map_of (rev (derivedProps env w)) k = Some v"
  shows "entries k (trackProps env w props) = [v]" and "get_prop (trackProps env w props) k = v"
  using assms
  by (simp_all add: entries_distinct [OF distinct_trackProps] map_of_trackProps get_prop_def)

lemma derivedProps_values:
  "map_of (rev (derivedProps env w)) ''page_url'' = Some (Str (pathname (location w)))"
  "map_of (rev (derivedProps env w)) ''page_title'' = Some (Str [])"
  "map_of (rev (derivedProps env w)) ''source_ip'' = Some (Str [])"
  "map_of (rev (derivedProps env w)) ''url'' =
     Some (Str (protocol (location w) @ ''//'' @ maskedHost env w @ pathname (location w)))"
  "map_of (rev (derivedProps env w)) ''doc_host'' = Some (Str (maskedHost env w))"
  "map_of (rev (derivedProps env w)) ''doc_search'' = Some (Str [])"
  "map_of (rev (derivedProps env w)) ''doc_path'' = Some (Str (pathname (location w)))"
  "map_of (rev (derivedProps env w)) ''referer'' =
     Some (Str (if matchesAllowedReferrer (referrer w) then referrer w else []))"
  "map_of (rev (derivedProps env w)) ''org_hash'' =
     Some (Str (md5_if_set env (Option.bind (getCurrentUser env) cur_org)))"
  "map_of (rev (derivedProps env w)) ''user_id_hash'' =
     Some (Str (md5_if_set env (Option.bind (getCurrentUser env) cur_id)))"
  "map_of (rev (derivedProps env w)) ''user_id'' =
     Some (if isCloud env then opt_val (Option.bind (getCurrentUser env) cur_id) else Str [])"
  "map_of (rev (derivedProps env w)) ''org'' =
     Some (if isCloud env then opt_val (Option.bind (getCurrentUser env) cur_org) else Str [])"
  "map_of (rev (derivedProps env w)) ''toJSON'' = None"
  by (simp_all add: derivedProps_def Let_def)

lemmas trackProps_entries = derivedProps_values(1-12) [THEN trackProps_entry(1)]

lemmas trackProps_values = derivedProps_values(1-12) [THEN trackProps_entry(2)]

text \<open>
  The derived properties have no \<open>toJSON\<close>: the bag has a \<open>toJSON\<close> function exactly when the
  caller's properties have one.
\<close>

lemma trackProps_toJSON:
  "toJSON_result (Object (trackProps env w props)) = toJSON_result (Object (rev props))"
  by (simp add: map_of_trackProps derivedProps_values)

subsection \<open>The text of a bag\<close>

lemma entries_map:
  "entries k (map (\<lambda>kv. (fst kv, f (snd kv))) al) = map f (entries k al)"
  by (induction al) (auto simp: entries_def)

lemma members_entries:
  "members ms = Inr js \<Longrightarrow>
     entries k js = concat (map (\<lambda>r. case r of Inr (Some j) \<Rightarrow> [j] | _ \<Rightarrow> []) (entries k ms))"
  by (induction ms arbitrary: js rule: members.induct)
    (auto simp: entries_def split: sum.splits)

lemma stringify_object:
  assumes "toJSON_result (Object tp) = None"
  shows "JSON_stringify (Object tp) =
     (case members (map (\<lambda>kv. (fst kv, SerializeJSONProperty True (snd kv))) tp) of
        Inl e \<Rightarrow> Inl e
      | Inr js \<Rightarrow> Inr (Some (JObject js)))"
  using assms by (simp add: JSON_stringify_def)

lemma stringify_entries:
  assumes "toJSON_result (Object tp) = None"
    and "JSON_stringify (Object tp) = Inr t"
    and "entries k tp = [Str v]"
  shows "\<exists>js. t = Some (JObject js) \<and> entries k js = [JStr v]"
proof -
  let ?ms = "map (\<lambda>kv. (fst kv, SerializeJSONProperty True (snd kv))) tp"
  obtain js where js: "members ?ms = Inr js" and t: "t = Some (JObject js)"
    using assms(1,2) by (auto simp: stringify_object split: sum.splits)
  have "entries k ?ms = map (SerializeJSONProperty True) (entries k tp)"
    by (rule entries_map)
  then have "entries k ?ms = [Inr (Some (JStr v))]"
    by (simp add: assms(3))
  then have "entries k js = [JStr v]"
    using members_entries [OF js, of k] by simp
  with t show ?thesis by simp
qed

subsection \<open>The pattern for localhost\<close>

lemma sublist_map:
  "sublist lit (map f h) \<longleftrightarrow> (\<exists>p m q. h = p @ m @ q \<and> map f m = lit)"
proof
  assume "sublist lit (map f h)"
  then obtain ps ss where "map f h = ps @ lit @ ss"
    by (auto simp: sublist_def)
  then have "take (length lit) (drop (length ps) (map f h)) = lit"
    by simp
  then have "map f (take (length lit) (drop (length ps) h)) = lit"
    by (simp only: take_map drop_map)
  moreover have "h = take (length ps) h @ take (length lit) (drop (length ps) h)
      @ drop (length lit) (drop (length ps) h)"
    by (simp only: append_take_drop_id)
  ultimately show "\<exists>p m q. h = p @ m @ q \<and> map f m = lit"
    by blast
next
  assume "\<exists>p m q. h = p @ m @ q \<and> map f m = lit"
  then obtain p m q where "h = p @ m @ q" and "map f m = lit"
    by blast
  then have "map f h = map f p @ lit @ map f q"
    by simp
  then show "sublist lit (map f h)"
    unfolding sublist_def by blast
qed

lemma toLowerASCII_other:
  assumes "c' \<notin> set ''ABCDEFGHIJKLMNOPQRSTUVWXYZ''"
    and "c' \<notin> set ''abcdefghijklmnopqrstuvwxyz''"
  shows "toLowerASCII c = c' \<longleftrightarrow> c = c'"
proof (cases "map_of (zip ''ABCDEFGHIJKLMNOPQRSTUVWXYZ'' ''abcdefghijklmnopqrstuvwxyz'') c")
  case None
  then show ?thesis
    by (simp add: toLowerASCII_def)
next
  case (Some l)
  then have "(c, l) \<in> set (zip ''ABCDEFGHIJKLMNOPQRSTUVWXYZ'' ''abcdefghijklmnopqrstuvwxyz'')"
    by (rule map_of_SomeD)
  then have "c \<in> set ''ABCDEFGHIJKLMNOPQRSTUVWXYZ''" and "l \<in> set ''abcdefghijklmnopqrstuvwxyz''"
    by (auto dest: set_zip_leftD set_zip_rightD)
  moreover have "toLowerASCII c = l"
    using Some by (simp add: toLowerASCII_def)
  ultimately show ?thesis
    using assms by auto
qed

lemma toLowerASCII_ip:
  "toLowerASCII c = CHR ''0'' \<longleftrightarrow> c = CHR ''0''"
  "toLowerASCII c = CHR ''1'' \<longleftrightarrow> c = CHR ''1''"
  "toLowerASCII c = CHR ''2'' \<longleftrightarrow> c = CHR ''2''"
  "toLowerASCII c = CHR ''7'' \<longleftrightarrow> c = CHR ''7''"
  "toLowerASCII c = CHR ''.'' \<longleftrightarrow> c = CHR ''.''"
  by (rule toLowerASCII_other; simp)+

lemma map_toLowerASCII_ip: "map toLowerASCII m = ''127.0.0.1'' \<longleftrightarrow> m = ''127.0.0.1''"
  by (auto simp: map_eq_Cons_conv toLowerASCII_ip)

lemma isLocalhost_iff:
  "isLocalhost h \<longleftrightarrow>
     (\<exists>p m q. h = p @ m @ q \<and> map toLowerASCII m = ''localhost'')
     \<or> (\<exists>p q. h = p @ ''127.0.0.1'' @ q)"
  unfolding isLocalhost_def sublist_map map_toLowerASCII_ip by auto

lemma emitted_obs:
  assumes "window env = Some w"
    and "JSON_stringify (Object (trackProps env w props)) = Inr text_tp"
    and "history_state w = StateKey k"
  shows "map (\<lambda>r. (fetch_method r, fetch_url r, event_name (fetch_body r),
                 properties_json (fetch_body r), url (fetch_body r), user_id (fetch_body r)))
           (fetches (emitted env event props s))
         = (if dataWarehouseUrl env = [] then []
            else [(''POST'', dataWarehouseUrl env @ ''/track?client_key='' @ GB_SDK_ID env, event,
                   text_tp, get_prop (trackProps env w props) ''url'',
                   Option.bind (getCurrentUser env) cur_id)])"
    and "jitsuTracks (emitted env event props s)
         = (if isTelemetryEnabled env then [(clientInUse env s, event, trackProps env w props)] else [])"
    and "jitsuCreations (emitted env event props s)
         = (if isTelemetryEnabled env \<and> jitsu s = None then [jitsuOptions env] else [])"
    and "jitsu (snd (track env event props s))
         = (if isTelemetryEnabled env then Some (clientInUse env s) else jitsu s)"
proof -
  obtain pageId where p: "fst (getOrGeneratePageId env w (snd (getOrGenerateDeviceId env s))) = Inr pageId"
    using pageId_returns [OF assms(3)] by blast
  show "map (\<lambda>r. (fetch_method r, fetch_url r, event_name (fetch_body r),
                 properties_json (fetch_body r), url (fetch_body r), user_id (fetch_body r)))
           (fetches (emitted env event props s))
         = (if dataWarehouseUrl env = [] then []
            else [(''POST'', dataWarehouseUrl env @ ''/track?client_key='' @ GB_SDK_ID env, event,
                   text_tp, get_prop (trackProps env w props) ''url'',
                   Option.bind (getCurrentUser env) cur_id)])"
    by (simp add: fetches_emitted [OF assms(1,2) p] warehouseRequest_def warehouseEvent_fields)
  show "jitsuTracks (emitted env event props s)
         = (if isTelemetryEnabled env then [(clientInUse env s, event, trackProps env w props)] else [])"
    by (rule jitsuTracks_emitted [OF assms(1,2) p])
  show "jitsuCreations (emitted env event props s)
         = (if isTelemetryEnabled env \<and> jitsu s = None then [jitsuOptions env] else [])"
    by (rule jitsuCreations_emitted [OF assms(1,2) p])
  show "jitsu (snd (track env event props s))
         = (if isTelemetryEnabled env then Some (clientInUse env s) else jitsu s)"
    by (rule track_jitsu [OF assms(1,2) p])
qed

lemma posted_entry:
  assumes "window env = Some w"
    and "r \<in> set (fetches (emitted env event props s))"
    and "toJSON_result (Object (trackProps env w props)) = None"
    and "entries k (trackProps env w props) = [Str v]"
  shows "\<exists>js. properties_json (fetch_body r) = Some (JObject js) \<and> entries k js = [JStr v]"
proof -
  have "JSON_stringify (Object (trackProps env w props)) = Inr (properties_json (fetch_body r))"
    using dispatch_of_bag(2) [OF assms(1,2)] by simp
  from stringify_entries [OF assms(3) this assms(4)] show ?thesis .
qed

subsection \<open>Facts about the sample environment\<close>

lemmas sample_defs = exampleEnv_def exampleWindow_def exampleUser_def cloudEnv_def localCloudEnv_def
  localWindow_def evilReferrerEnv_def evilWindow_def otherReferrerEnv_def nullStateEnv_def

lemma sample_windows:
  "window exampleEnv = Some exampleWindow"
  "window cloudEnv = Some exampleWindow"
  "window localCloudEnv = Some localWindow"
  "window evilReferrerEnv = Some evilWindow"
  "window otherReferrerEnv = Some (exampleWindow\<lparr>referrer := ''https://search.example.org/?q=ab''\<rparr>)"
  "window nullStateEnv = Some (exampleWindow\<lparr>history_state := NullState\<rparr>)"
  by (simp_all add: sample_defs)

lemma sample_states:
  "history_state exampleWindow = StateKey ''k1''"
  "history_state localWindow = StateKey ''k1''"
  "history_state evilWindow = StateKey ''k1''"
  "history_state (exampleWindow\<lparr>referrer := ''https://search.example.org/?q=ab''\<rparr>) = StateKey ''k1''"
  by (simp_all add: sample_defs)

lemma sample_settings:
  "dataWarehouseUrl exampleEnv = ''https://w.example.com''"
  "dataWarehouseUrl cloudEnv = ''https://w.example.com''"
  "dataWarehouseUrl localCloudEnv = ''https://w.example.com''"
  "dataWarehouseUrl evilReferrerEnv = ''https://w.example.com''"
  "dataWarehouseUrl otherReferrerEnv = ''https://w.example.com''"
  "dataWarehouseUrl nullStateEnv = ''https://w.example.com''"
  "GB_SDK_ID exampleEnv = ''sdk-1''"
  "isTelemetryEnabled exampleEnv"
  "isTelemetryEnabled cloudEnv"
  "isTelemetryEnabled localCloudEnv"
  "isTelemetryEnabled evilReferrerEnv"
  "isTelemetryEnabled otherReferrerEnv"
  "isTelemetryEnabled nullStateEnv"
  "\<not> isCloud exampleEnv"
  "isCloud cloudEnv"
  "isCloud localCloudEnv"
  by (simp_all add: sample_defs)

lemma sample_locations:
  "location exampleWindow = \<lparr>hostname = ''growth.example.com'', pathname = ''/features'', protocol = ''https:''\<rparr>"
  "location localWindow = \<lparr>hostname = ''Dev.LocalHost'', pathname = ''/features'', protocol = ''http:''\<rparr>"
  "referrer exampleWindow = ''https://www.weblens.ai/docs''"
  "referrer evilWindow = ''https://evil.example.org/?ref=weblens.ai''"
  by (simp_all add: sample_defs)

lemma isLocalhost_examples:
  "isLocalhost ''Dev.LocalHost''"
  "isLocalhost ''127.0.0.1''"
  "\<not> isLocalhost ''growth.example.com''"
  "\<not> isLocalhost ''other.example.org''"
  by (simp_all add: isLocalhost_def toLowerASCII_def sublist_code prefix_code)

lemmas bag_defs = trackProps_def derivedProps_def maskedHost_def matchesAllowedReferrer_def
  md5_if_set_def opt_val_def truthy_def Let_def

lemma example_bag:
  "trackProps exampleEnv exampleWindow nosyProps =
     [(''page_title'', Str []), (''doc_search'', Str []), (''source_ip'', Str []),
      (''button'', Str ''save''), (''page_url'', Str ''/features''),
      (''url'', Str ''https://self-hosted/features''), (''doc_host'', Str ''self-hosted''),
      (''doc_path'', Str ''/features''), (''referer'', Str ''https://www.weblens.ai/docs''),
      (''build_sha'', Str ''abc''), (''build_date'', Str ''2024-01-01''),
      (''build_version'', Str ''2.7.0''), (''account_plan'', Str ''pro''),
      (''org_creation_date'', Undefined), (''configFile'', Bool False), (''role'', Str ''admin''),
      (''org_hash'', Str ''md5:org_1''), (''user_id_hash'', Str ''md5:u_1''),
      (''user_id'', Str []), (''org'', Str [])]"
  by (simp add: bag_defs sample_defs nosyProps_def isLocalhost_examples sublist_code prefix_code)

lemma example_text:
  "JSON_stringify (Object (trackProps exampleEnv exampleWindow nosyProps)) =
     Inr (Some (JObject
       [(''page_title'', JStr []), (''doc_search'', JStr []), (''source_ip'', JStr []),
        (''button'', JStr ''save''), (''page_url'', JStr ''/features''),
        (''url'', JStr ''https://self-hosted/features''), (''doc_host'', JStr ''self-hosted''),
        (''doc_path'', JStr ''/features''), (''referer'', JStr ''https://www.weblens.ai/docs''),
        (''build_sha'', JStr ''abc''), (''build_date'', JStr ''2024-01-01''),
        (''build_version'', JStr ''2.7.0''), (''account_plan'', JStr ''pro''),
        (''configFile'', JBool False), (''role'', JStr ''admin''),
        (''org_hash'', JStr ''md5:org_1''), (''user_id_hash'', JStr ''md5:u_1''),
        (''user_id'', JStr []), (''org'', JStr [])]))"
  by (simp add: example_bag JSON_stringify_def)

lemma dispatched_once:
  assumes "window env = Some w"
    and "history_state w = StateKey k"
    and "dataWarehouseUrl env \<noteq> []"
    and "isTelemetryEnabled env"
    and "JSON_stringify (Object (trackProps env w props)) = Inr t"
  shows "forwardedProps (emitted env event props s) = [trackProps env w props]"
    and "postedProperties (emitted env event props s) = [t]"
    and "map (url \<circ> fetch_body) (fetches (emitted env event props s))
         = [get_prop (trackProps env w props) ''url'']"
    and "map (user_id \<circ> fetch_body) (fetches (emitted env event props s))
         = [Option.bind (getCurrentUser env) cur_id]"
proof -
  note o = emitted_obs [OF assms(1,5,2), of event s]
  show "forwardedProps (emitted env event props s) = [trackProps env w props]"
    by (simp add: forwardedProps_def o(2) assms(4))
  have m: "map (\<lambda>r. (fetch_method r, fetch_url r, event_name (fetch_body r),
                 properties_json (fetch_body r), url (fetch_body r), user_id (fetch_body r)))
           (fetches (emitted env event props s))
        = [(''POST'', dataWarehouseUrl env @ ''/track?client_key='' @ GB_SDK_ID env, event,
                   t, get_prop (trackProps env w props) ''url'',
                   Option.bind (getCurrentUser env) cur_id)]"
    using o(1) assms(3) by simp
  then obtain r where r: "fetches (emitted env event props s) = [r]"
    by (cases "fetches (emitted env event props s)") auto
  show "postedProperties (emitted env event props s) = [t]"
    using m by (simp add: postedProperties_def r)
  show "map (url \<circ> fetch_body) (fetches (emitted env event props s))
         = [get_prop (trackProps env w props) ''url'']"
    using m by (simp add: r)
  show "map (user_id \<circ> fetch_body) (fetches (emitted env event props s))
         = [Option.bind (getCurrentUser env) cur_id]"
    using m by (simp add: r)
qed

lemmas text_defs = bag_defs sample_defs JSON_stringify_def isLocalhost_examples sublist_code prefix_code

lemma sample_texts:
  "\<exists>t. JSON_stringify (Object (trackProps localCloudEnv localWindow nosyProps)) = Inr t"
  "\<exists>t. JSON_stringify (Object (trackProps exampleEnv exampleWindow [])) = Inr t"
  "\<exists>t. JSON_stringify (Object (trackProps evilReferrerEnv evilWindow [])) = Inr t"
  "\<exists>t. JSON_stringify (Object (trackProps nullStateEnv (exampleWindow\<lparr>history_state := NullState\<rparr>) [])) = Inr t"
  "\<exists>t. JSON_stringify (Object (trackProps localCloudEnv localWindow [])) = Inr t"
  by (simp_all add: text_defs nosyProps_def)

lemma cloud_text:
  "JSON_stringify (Object (trackProps cloudEnv exampleWindow [])) =
     Inr (Some (JObject
       [(''page_url'', JStr ''/features''), (''page_title'', JStr []), (''source_ip'', JStr []),
        (''url'', JStr ''https://cloud/features''), (''doc_host'', JStr ''cloud''),
        (''doc_search'', JStr []), (''doc_path'', JStr ''/features''),
        (''referer'', JStr ''https://www.weblens.ai/docs''),
        (''build_sha'', JStr ''abc''), (''build_date'', JStr ''2024-01-01''),
        (''build_version'', JStr ''2.7.0''), (''account_plan'', JStr ''pro''),
        (''configFile'', JBool False), (''role'', JStr ''admin''),
        (''org_hash'', JStr ''md5:org_1''), (''user_id_hash'', JStr ''md5:u_1''),
        (''user_id'', JStr ''u_1''), (''org'', JStr ''org_1'')]))"
  by (simp add: text_defs)


lemma toJSON_texts:
  "JSON_stringify (Object (trackProps exampleEnv exampleWindow toJSONProps)) =
     Inr (Some (JObject [(''page_title'', JStr ''Quarterly numbers''), (''doc_search'', JStr ''?token=1'')]))"
  "JSON_stringify (Object (trackProps exampleEnv exampleWindow hostProps)) =
     Inr (Some (JObject [(''doc_host'', JStr ''growth.example.com''),
                         (''url'', JStr ''https://growth.example.com/features'')]))"
  "JSON_stringify (Object (trackProps exampleEnv exampleWindow bigIntProps)) = Inl TypeError"
  by (simp_all add: text_defs toJSONProps_def hostProps_def bigIntProps_def)

subsection \<open>User and organization identifiers\<close>

text \<open>
  Claim C1 says that outside the managed cloud no unhashed user id is in any dispatched
  payload, the body posted to the warehouse included. The properties are as claimed: the
  hashes are always there, and \<open>user_id\<close> and \<open>org\<close> are empty outside the cloud. But \<open>track\<close>
  also passes \<open>user_id: id\<close> to \<open>dataWareHouseTrack\<close> without asking \<open>isCloud()\<close>. In the sample
  environment, which is not the cloud and has a warehouse configured, the body of the one
  request carries the user id \<open>u_1\<close> as it is, next to properties whose \<open>user_id\<close> is empty
  and whose \<open>user_id_hash\<close> is the hash.
\<close>

theorem track_warehouse_user_id_unhashed:
  "\<not> isCloud exampleEnv
   \<and> Option.bind (getCurrentUser exampleEnv) cur_id = Some ''u_1''
   \<and> map (user_id \<circ> fetch_body) (fetches (emitted exampleEnv ''View'' nosyProps freshState)) = [Some ''u_1'']
   \<and> get_prop (trackProps exampleEnv exampleWindow nosyProps) ''user_id'' = Str []
   \<and> get_prop (trackProps exampleEnv exampleWindow nosyProps) ''user_id_hash'' = Str ''md5:u_1''"
proof -
  have u: "Option.bind (getCurrentUser exampleEnv) cur_id = Some ''u_1''"
    by (simp add: exampleEnv_def exampleUser_def)
  have m: "lib_md5 exampleEnv ''u_1'' = ''md5:u_1''"
    by (simp add: exampleEnv_def)
  have f: "map (user_id \<circ> fetch_body) (fetches (emitted exampleEnv ''View'' nosyProps freshState))
      = [Some ''u_1'']"
    using dispatched_once(4) [OF sample_windows(1) sample_states(1) _ sample_settings(8) example_text]
    by (simp add: sample_settings u)
  show ?thesis
    by (simp add: f sample_settings trackProps_values u m md5_if_set_def)
qed

subsection \<open>The two dispatches\<close>

lemma track_cases:
  obtains (ssr) "window env = None"
  | (thr) w e where "window env = Some w" "JSON_stringify (Object (trackProps env w props)) = Inl e"
  | (nul) w t where "window env = Some w" "JSON_stringify (Object (trackProps env w props)) = Inr t"
      "history_state w = NullState"
  | (ok) w t k where "window env = Some w" "JSON_stringify (Object (trackProps env w props)) = Inr t"
      "history_state w = StateKey k"
proof (cases "window env")
  case None
  then show ?thesis by (rule ssr)
next
  case (Some w)
  show ?thesis
  proof (cases "JSON_stringify (Object (trackProps env w props))")
    case (Inl e)
    with Some show ?thesis by (rule thr)
  next
    case (Inr t)
    show ?thesis
    proof (cases "history_state w")
      case NullState
      with Some Inr show ?thesis by (rule nul)
    next
      case (StateKey k)
      with Some Inr show ?thesis by (rule ok)
    qed
  qed
qed

text \<open>
  A call that gets as far as dispatching makes one request if and only if a warehouse URL
  is configured, forwards the event if and only if telemetry is enabled, and creates the
  client only when the module holds none. Over any sequence of calls in a process that
  starts without a client, the client is created at most once and every forwarded event
  went to the client the module holds.
\<close>

lemma track_dispatch_any:
  "fetches (emitted env event props s) \<noteq> [] \<longleftrightarrow> reachesDispatch env props \<and> dataWarehouseUrl env \<noteq> []"
  "length (fetches (emitted env event props s)) \<le> 1"
  "jitsuTracks (emitted env event props s) \<noteq> [] \<longleftrightarrow> reachesDispatch env props \<and> isTelemetryEnabled env"
  "jitsuTracks (emitted env event props s) = [] \<or>
     (\<exists>tp. jitsuTracks (emitted env event props s) = [(clientInUse env s, event, tp)])"
  "jitsuCreations (emitted env event props s) =
     (if reachesDispatch env props \<and> isTelemetryEnabled env \<and> jitsu s = None
      then [jitsuOptions env] else [])"
  "jitsu (snd (track env event props s)) =
     (if reachesDispatch env props \<and> isTelemetryEnabled env then Some (clientInUse env s) else jitsu s)"
proof -
  show "fetches (emitted env event props s) \<noteq> [] \<longleftrightarrow> reachesDispatch env props \<and> dataWarehouseUrl env \<noteq> []"
  proof (cases rule: track_cases [where env = env and props = props])
    case ssr
    then show ?thesis by (simp add: emitted_no_window reachesDispatch_def)
  next
    case (thr w e)
    then show ?thesis by (simp add: emitted_stringify_throws reachesDispatch_def)
  next
    case (nul w t)
    then show ?thesis by (simp add: emitted_null_state reachesDispatch_def)
  next
    case (ok w t k)
    obtain p where p: "fst (getOrGeneratePageId env w (snd (getOrGenerateDeviceId env s))) = Inr p"
      using pageId_returns [OF ok(3)] by blast
    show ?thesis
      using ok by (simp add: fetches_emitted [OF ok(1,2) p] reachesDispatch_def)
  qed
  show "length (fetches (emitted env event props s)) \<le> 1"
  proof (cases rule: track_cases [where env = env and props = props])
    case ssr
    then show ?thesis by (simp add: emitted_no_window)
  next
    case (thr w e)
    then show ?thesis by (simp add: emitted_stringify_throws)
  next
    case (nul w t)
    then show ?thesis by (simp add: emitted_null_state)
  next
    case (ok w t k)
    obtain p where p: "fst (getOrGeneratePageId env w (snd (getOrGenerateDeviceId env s))) = Inr p"
      using pageId_returns [OF ok(3)] by blast
    show ?thesis
      by (simp add: fetches_emitted [OF ok(1,2) p])
  qed
  show "jitsuTracks (emitted env event props s) \<noteq> [] \<longleftrightarrow> reachesDispatch env props \<and> isTelemetryEnabled env"
  proof (cases rule: track_cases [where env = env and props = props])
    case ssr
    then show ?thesis by (simp add: emitted_no_window reachesDispatch_def)
  next
    case (thr w e)
    then show ?thesis by (simp add: emitted_stringify_throws reachesDispatch_def)
  next
    case (nul w t)
    then show ?thesis by (simp add: emitted_null_state reachesDispatch_def)
  next
    case (ok w t k)
    show ?thesis
      using ok by (simp add: emitted_obs(2) [OF ok] reachesDispatch_def)
  qed
  show "jitsuTracks (emitted env event props s) = [] \<or>
     (\<exists>tp. jitsuTracks (emitted env event props s) = [(clientInUse env s, event, tp)])"
  proof (cases rule: track_cases [where env = env and props = props])
    case ssr
    then show ?thesis by (simp add: emitted_no_window)
  next
    case (thr w e)
    then show ?thesis by (simp add: emitted_stringify_throws)
  next
    case (nul w t)
    then show ?thesis by (simp add: emitted_null_state)
  next
    case (ok w t k)
    show ?thesis
      by (simp add: emitted_obs(2) [OF ok])
  qed
  show "jitsuCreations (emitted env event props s) =
     (if reachesDispatch env props \<and> isTelemetryEnabled env \<and> jitsu s = None
      then [jitsuOptions env] else [])"
  proof (cases rule: track_cases [where env = env and props = props])
    case ssr
    then show ?thesis by (simp add: emitted_no_window reachesDispatch_def)
  next
    case (thr w e)
    then show ?thesis by (simp add: emitted_stringify_throws reachesDispatch_def)
  next
    case (nul w t)
    then show ?thesis by (simp add: emitted_null_state reachesDispatch_def)
  next
    case (ok w t k)
    show ?thesis
      using ok by (simp add: emitted_obs(3) [OF ok] reachesDispatch_def)
  qed
  show "jitsu (snd (track env event props s)) =
     (if reachesDispatch env props \<and> isTelemetryEnabled env then Some (clientInUse env s) else jitsu s)"
  proof (cases rule: track_cases [where env = env and props = props])
    case ssr
    then show ?thesis by (simp add: track_no_window reachesDispatch_def)
  next
    case (thr w e)
    then show ?thesis by (simp add: track_stringify_throws reachesDispatch_def)
  next
    case (nul w t)
    then show ?thesis
      by (simp add: track_null_state reachesDispatch_def getOrGenerateDeviceId_jitsu)
  next
    case (ok w t k)
    show ?thesis
      using ok by (simp add: emitted_obs(4) [OF ok] reachesDispatch_def)
  qed
qed

lemma oneClient_track:
  assumes "oneClient s"
  shows "oneClient (snd (track env event props s))"
proof (cases "jitsuTracks (emitted env event props s) = []")
  case True
  then have "\<not> (reachesDispatch env props \<and> isTelemetryEnabled env)"
    using track_dispatch_any(3) [of env event props s] by simp
  then show ?thesis
    using assms True
    by (auto simp: oneClient_def track_effects_emitted jitsuCreations_append jitsuTracks_append
        track_dispatch_any(5,6))
next
  case False
  then obtain tp where tp: "jitsuTracks (emitted env event props s) = [(clientInUse env s, event, tp)]"
    using track_dispatch_any(4) [of env event props s] by blast
  have r: "reachesDispatch env props \<and> isTelemetryEnabled env"
    using False track_dispatch_any(3) [of env event props s] by simp
  show ?thesis
    using assms tp r
    by (cases "jitsu s")
      (auto simp: oneClient_def track_effects_emitted jitsuCreations_append jitsuTracks_append
        track_dispatch_any(5,6) clientInUse_def)
qed

lemma oneClient_track_calls: "oneClient s \<Longrightarrow> oneClient (track_calls cs s)"
  by (induction cs arbitrary: s) (auto simp: oneClient_track)

lemma track_client_created_once:
  assumes "jitsu s = None" "jitsuCreations (effects s) = []" "jitsuTracks (effects s) = []"
  shows "length (jitsuCreations (effects (track_calls cs s))) \<le> 1"
    and "(c, e, p) \<in> set (jitsuTracks (effects (track_calls cs s))) \<Longrightarrow> jitsu (track_calls cs s) = Some c"
proof -
  have "oneClient s"
    using assms by (simp add: oneClient_def)
  then have o: "oneClient (track_calls cs s)"
    by (rule oneClient_track_calls)
  show "length (jitsuCreations (effects (track_calls cs s))) \<le> 1"
    using o by (simp add: oneClient_def)
  show "(c, e, p) \<in> set (jitsuTracks (effects (track_calls cs s))) \<Longrightarrow> jitsu (track_calls cs s) = Some c"
    using o unfolding oneClient_def by blast
qed

text \<open>The two sample calls: one creation, both events forwarded to that client.\<close>

lemma twoCalls_jitsu:
  "jitsuCreations (effects (track_calls twoCalls freshState)) = [jitsuOptions exampleEnv]"
  "map fst (jitsuTracks (effects (track_calls twoCalls freshState)))
     = [jitsuClient (jitsuOptions exampleEnv), jitsuClient (jitsuOptions exampleEnv)]"
proof -
  let ?s1 = "snd (track exampleEnv ''View'' nosyProps freshState)"
  obtain t where t: "JSON_stringify (Object (trackProps localCloudEnv localWindow [])) = Inr t"
    using sample_texts(5) by blast
  note o1 = emitted_obs [OF sample_windows(1) example_text sample_states(1), of "''View''" freshState]
  note o2 = emitted_obs [OF sample_windows(3) t sample_states(2), of "''Click''" ?s1]
  have j0: "jitsu freshState = None" and e0: "effects freshState = []"
    by (simp_all add: freshState_def)
  have j1: "jitsu ?s1 = Some (jitsuClient (jitsuOptions exampleEnv))"
    by (simp add: o1(4) sample_settings clientInUse_def j0)
  show "jitsuCreations (effects (track_calls twoCalls freshState)) = [jitsuOptions exampleEnv]"
    by (simp add: twoCalls_def track_effects_emitted jitsuCreations_append o1(3) o2(3)
        sample_settings j0 j1 e0)
  show "map fst (jitsuTracks (effects (track_calls twoCalls freshState)))
     = [jitsuClient (jitsuOptions exampleEnv), jitsuClient (jitsuOptions exampleEnv)]"
    by (simp add: twoCalls_def track_effects_emitted jitsuTracks_append o1(2) o2(2)
        sample_settings j0 j1 e0 clientInUse_def)
qed

text \<open>
  \<open>JSON.stringify(trackProps)\<close> is outside any \<open>try\<close>: a value it rejects among the caller's
  properties ends the call before anything is read, written or sent.
\<close>

lemma track_sends_nothing_for_bigint:
  "fst (track exampleEnv ''View'' bigIntProps freshState) = Inl TypeError"
  "emitted exampleEnv ''View'' bigIntProps freshState = []"
  by (simp_all add: track_stringify_throws [OF sample_windows(1) toJSON_texts(3)]
      emitted_stringify_throws [OF sample_windows(1) toJSON_texts(3)])

text \<open>
  Claim C5 says that every call in a browser posts the event when a warehouse URL is
  configured and forwards it when telemetry is enabled. \<open>getOrGeneratePageId\<close> reads
  \<open>window.history.state.key\<close> without a guard, and \<open>track\<close> calls it while it builds the
  argument of \<open>dataWareHouseTrack\<close>. On a history entry without a state object
  (\<open>window.history.state\<close> is \<open>null\<close>) the read throws a \<open>TypeError\<close>. Here the sample
  deployment, with its warehouse configured and telemetry enabled, tracks from such an
  entry: the call ends with the exception once the device cookie is written, no request is
  made and nothing is forwarded.
\<close>

theorem track_sends_nothing_without_history_state:
  "window nullStateEnv = Some (exampleWindow\<lparr>history_state := NullState\<rparr>)
   \<and> dataWarehouseUrl nullStateEnv = ''https://w.example.com''
   \<and> isTelemetryEnabled nullStateEnv
   \<and> fst (track nullStateEnv ''View'' [] freshState) = Inl TypeError
   \<and> emitted nullStateEnv ''View'' [] freshState
       = [CookiesGet ''gb_device_id'',
          CookiesSet ''gb_device_id'' ''uuid-'' \<lparr>expires = Days 365, sameSite = ''strict''\<rparr>]
   \<and> fetches (emitted nullStateEnv ''View'' [] freshState) = []
   \<and> jitsuTracks (emitted nullStateEnv ''View'' [] freshState) = []"
proof -
  have h: "history_state (exampleWindow\<lparr>history_state := NullState\<rparr>) = NullState"
    by simp
  obtain t where t: "JSON_stringify (Object (trackProps nullStateEnv
      (exampleWindow\<lparr>history_state := NullState\<rparr>) [])) = Inr t"
    using sample_texts(4) by blast
  have d: "fst (getOrGenerateDeviceId nullStateEnv freshState) = ''uuid-''"
    by (simp add: getOrGenerateDeviceId_def cookie_or_uuid_def Cookies_get_def Cookies_set_def
        uuidv4_def emit_def sample_defs freshState_def split_beta)
  show ?thesis
    by (simp add: sample_windows sample_settings track_null_state [OF sample_windows(6) t h]
        emitted_null_state [OF sample_windows(6) t h] d DEVICE_ID_COOKIE_def)
qed

subsection \<open>The masked host\<close>

lemma uuidv4_window: "uuidv4 (env\<lparr>window := x\<rparr>) s = uuidv4 env s"
  by (simp add: uuidv4_def)

lemma cookie_or_uuid_window: "cookie_or_uuid (env\<lparr>window := x\<rparr>) n s = cookie_or_uuid env n s"
  by (simp add: cookie_or_uuid_def uuidv4_window split: prod.splits option.splits)

lemma window_irrelevant:
  "getOrGenerateDeviceId (env\<lparr>window := x\<rparr>) s = getOrGenerateDeviceId env s"
  "getOrGenerateSessionId (env\<lparr>window := x\<rparr>) s = getOrGenerateSessionId env s"
  "dataWareHouseTrack (env\<lparr>window := x\<rparr>) e s = dataWareHouseTrack env e s"
  "ensureJitsu (env\<lparr>window := x\<rparr>) s = ensureJitsu env s"
  by (simp_all add: cookie_or_uuid_window getOrGenerateDeviceId_def Let_def
      getOrGenerateSessionId_def dataWareHouseTrack_def ensureJitsu_def jitsuOptions_def
      split: option.splits)

lemma getOrGeneratePageId_window:
  "getOrGeneratePageId (env\<lparr>window := x\<rparr>) w s = getOrGeneratePageId env w s"
  by (simp add: getOrGeneratePageId_def uuidv4_window split: HistoryState.splits option.splits)

lemma getOrGeneratePageId_location:
  "getOrGeneratePageId env (w\<lparr>location := l\<rparr>) s = getOrGeneratePageId env w s"
  by (simp add: getOrGeneratePageId_def)

lemma md5_if_set_window: "md5_if_set (env\<lparr>window := x\<rparr>) v = md5_if_set env v"
  by (simp add: md5_if_set_def split: option.splits)

lemma derivedProps_window: "derivedProps (env\<lparr>window := x\<rparr>) w = derivedProps env w"
  by (simp add: derivedProps_def Let_def md5_if_set_window maskedHost_def)

lemma maskedHost_hostname:
  assumes "isLocalhost h = isLocalhost (hostname (location w))"
  shows "maskedHost env (w\<lparr>location := (location w)\<lparr>hostname := h\<rparr>\<rparr>) = maskedHost env w"
  using assms by (simp add: maskedHost_def)

lemma derivedProps_hostname:
  assumes "isLocalhost h = isLocalhost (hostname (location w))"
  shows "derivedProps env (w\<lparr>location := (location w)\<lparr>hostname := h\<rparr>\<rparr>) = derivedProps env w"
  by (simp add: derivedProps_def Let_def maskedHost_hostname [OF assms])

lemma track_hostname_irrelevant:
  assumes "isLocalhost h = isLocalhost (hostname (location w))"
  shows "track (env\<lparr>window := Some (w\<lparr>location := (location w)\<lparr>hostname := h\<rparr>\<rparr>)\<rparr>) event props s
       = track (env\<lparr>window := Some w\<rparr>) event props s"
  by (simp add: track_def window_irrelevant getOrGeneratePageId_location getOrGeneratePageId_window
      trackProps_def derivedProps_window derivedProps_hostname [OF assms] split_beta Let_def
      cong: sum.case_cong if_cong)

text \<open>
  Claim C6, for the property bag \<open>trackProps\<close> of a call in a browser. Let \<open>host\<close> be
  \<open>localhost\<close> when the hostname of the page contains \<open>localhost\<close> in any letter case or
  contains \<open>127.0.0.1\<close>, whatever \<open>isCloud()\<close> says, and otherwise \<open>cloud\<close> in cloud mode and
  \<open>self-hosted\<close> if not. The bag holds exactly one \<open>doc_host\<close>, which is \<open>host\<close>, and exactly
  one \<open>url\<close>, which is \<open>protocol//host/pathname\<close>. Every object forwarded to the analytics
  client is this bag. Every event posted to the warehouse has this \<open>url\<close>, and its
  \<open>properties_json\<close> is \<open>JSON.stringify\<close> of this bag: a JSON object with the same single
  \<open>doc_host\<close> and \<open>url\<close> when the bag has no \<open>toJSON\<close> function. The hostname has no other
  influence: with any hostname on the same side of the pattern the call has the same
  result, state and effects.
\<close>

theorem track_masks_hostname:
  assumes "window env = Some w"
    and "isLocal \<longleftrightarrow>
           (\<exists>p m q. hostname (location w) = p @ m @ q \<and> map toLowerASCII m = ''localhost'')
           \<or> (\<exists>p q. hostname (location w) = p @ ''127.0.0.1'' @ q)"
    and "host = (if isLocal then ''localhost'' else if isCloud env then ''cloud'' else ''self-hosted'')"
  shows "entries ''doc_host'' (trackProps env w props) = [Str host]
     \<and> entries ''url'' (trackProps env w props)
         = [Str (protocol (location w) @ ''//'' @ host @ pathname (location w))]
     \<and> (\<forall>tp \<in> set (forwardedProps (emitted env event props s)). tp = trackProps env w props)
     \<and> (\<forall>r \<in> set (fetches (emitted env event props s)).
           url (fetch_body r) = Str (protocol (location w) @ ''//'' @ host @ pathname (location w))
           \<and> JSON_stringify (Object (trackProps env w props)) = Inr (properties_json (fetch_body r))
           \<and> (toJSON_result (Object (trackProps env w props)) = None \<longrightarrow>
                (\<exists>js. properties_json (fetch_body r) = Some (JObject js)
                    \<and> entries ''doc_host'' js = [JStr host]
                    \<and> entries ''url'' js
                        = [JStr (protocol (location w) @ ''//'' @ host @ pathname (location w))])))
     \<and> (\<forall>h. (isLocal \<longleftrightarrow>
                (\<exists>p m q. h = p @ m @ q \<and> map toLowerASCII m = ''localhost'')
                \<or> (\<exists>p q. h = p @ ''127.0.0.1'' @ q)) \<longrightarrow>
            track (env\<lparr>window := Some (w\<lparr>location := (location w)\<lparr>hostname := h\<rparr>\<rparr>)\<rparr>) event props s
            = track env event props s)"
proof -
  let ?u = "protocol (location w) @ ''//'' @ host @ pathname (location w)"
  have l: "isLocal = isLocalhost (hostname (location w))"
    using assms(2) by (simp add: isLocalhost_iff)
  have h: "maskedHost env w = host"
    by (simp add: maskedHost_def assms(3) l)
  have d: "entries ''doc_host'' (trackProps env w props) = [Str host]"
    by (simp add: trackProps_entries h)
  have u: "entries ''url'' (trackProps env w props) = [Str ?u]"
    by (simp add: trackProps_entries h)
  have f: "\<forall>tp \<in> set (forwardedProps (emitted env event props s)). tp = trackProps env w props"
    using dispatch_of_bag(1) [OF assms(1)] by blast
  have p: "\<forall>r \<in> set (fetches (emitted env event props s)).
           url (fetch_body r) = Str ?u
           \<and> JSON_stringify (Object (trackProps env w props)) = Inr (properties_json (fetch_body r))
           \<and> (toJSON_result (Object (trackProps env w props)) = None \<longrightarrow>
                (\<exists>js. properties_json (fetch_body r) = Some (JObject js)
                    \<and> entries ''doc_host'' js = [JStr host]
                    \<and> entries ''url'' js = [JStr ?u]))"
  proof (intro ballI conjI impI)
    fix r
    assume r: "r \<in> set (fetches (emitted env event props s))"
    show "url (fetch_body r) = Str ?u"
      using dispatch_of_bag(2) [OF assms(1) r] by (simp add: trackProps_values h)
    show "JSON_stringify (Object (trackProps env w props)) = Inr (properties_json (fetch_body r))"
      using dispatch_of_bag(2) [OF assms(1) r] by simp
    assume t: "toJSON_result (Object (trackProps env w props)) = None"
    obtain js where js: "properties_json (fetch_body r) = Some (JObject js)"
      and e1: "entries ''doc_host'' js = [JStr host]"
      using posted_entry [OF assms(1) r t d] by blast
    have e2: "entries ''url'' js = [JStr ?u]"
      using posted_entry [OF assms(1) r t u] js by auto
    show "\<exists>js. properties_json (fetch_body r) = Some (JObject js)
                    \<and> entries ''doc_host'' js = [JStr host]
                    \<and> entries ''url'' js = [JStr ?u]"
      using js e1 e2 by blast
  qed
  have i: "\<forall>h. (isLocal \<longleftrightarrow>
                (\<exists>p m q. h = p @ m @ q \<and> map toLowerASCII m = ''localhost'')
                \<or> (\<exists>p q. h = p @ ''127.0.0.1'' @ q)) \<longrightarrow>
            track (env\<lparr>window := Some (w\<lparr>location := (location w)\<lparr>hostname := h\<rparr>\<rparr>)\<rparr>) event props s
            = track env event props s"
  proof (intro allI impI)
    fix h
    assume "isLocal \<longleftrightarrow>
                (\<exists>p m q. h = p @ m @ q \<and> map toLowerASCII m = ''localhost'')
                \<or> (\<exists>p q. h = p @ ''127.0.0.1'' @ q)"
    then have "isLocalhost h = isLocalhost (hostname (location w))"
      using l by (simp add: isLocalhost_iff)
    then have "track (env\<lparr>window := Some (w\<lparr>location := (location w)\<lparr>hostname := h\<rparr>\<rparr>)\<rparr>) event props s
          = track (env\<lparr>window := Some w\<rparr>) event props s"
      by (rule track_hostname_irrelevant)
    moreover have "env\<lparr>window := Some w\<rparr> = env"
      using assms(1) by simp
    ultimately show "track (env\<lparr>window := Some (w\<lparr>location := (location w)\<lparr>hostname := h\<rparr>\<rparr>)\<rparr>) event props s
          = track env event props s"
      by simp
  qed
  from d u f p i show ?thesis
    by (intro conjI)
qed

text \<open>
  Read for everything that is dispatched, the claim fails on the text posted to the
  warehouse: \<open>JSON.stringify\<close> posts what a \<open>toJSON\<close> function among the caller's properties
  returns instead of the bag. Here it returns a \<open>doc_host\<close> and a \<open>url\<close> with the hostname of
  the page, and these are the \<open>properties_json\<close> of the request.
\<close>

theorem track_masks_hostname_counterexample:
  "window exampleEnv = Some exampleWindow
   \<and> hostname (location exampleWindow) = ''growth.example.com''
   \<and> postedProperties (emitted exampleEnv ''View'' hostProps freshState)
       = [Some (JObject [(''doc_host'', JStr ''growth.example.com''),
                         (''url'', JStr ''https://growth.example.com/features'')])]"
  using dispatched_once(2) [OF sample_windows(1) sample_states(1) _ sample_settings(8) toJSON_texts(2)]
  by (simp add: sample_settings sample_windows sample_locations)

theorem track_masks_hostname_witness:
  "entries ''doc_host'' (trackProps localCloudEnv localWindow nosyProps) = [Str ''localhost'']
   \<and> entries ''url'' (trackProps localCloudEnv localWindow nosyProps) = [Str ''http://localhost/features'']
   \<and> forwardedProps (emitted localCloudEnv ''View'' nosyProps freshState)
       = [trackProps localCloudEnv localWindow nosyProps]
   \<and> map (url \<circ> fetch_body) (fetches (emitted localCloudEnv ''View'' nosyProps freshState))
       = [Str ''http://localhost/features'']
   \<and> track (localCloudEnv\<lparr>window := Some (localWindow\<lparr>location := (location localWindow)\<lparr>hostname := ''127.0.0.1''\<rparr>\<rparr>)\<rparr>)
         ''View'' nosyProps freshState
       = track localCloudEnv ''View'' nosyProps freshState
   \<and> entries ''doc_host'' (trackProps cloudEnv exampleWindow []) = [Str ''cloud'']
   \<and> entries ''url'' (trackProps cloudEnv exampleWindow []) = [Str ''https://cloud/features'']
   \<and> map (url \<circ> fetch_body) (fetches (emitted cloudEnv ''View'' [] freshState))
       = [Str ''https://cloud/features'']
   \<and> postedProperties (emitted cloudEnv ''View'' [] freshState)
       = [Some (JObject
           [(''page_url'', JStr ''/features''), (''page_title'', JStr []), (''source_ip'', JStr []),
            (''url'', JStr ''https://cloud/features''), (''doc_host'', JStr ''cloud''),
            (''doc_search'', JStr []), (''doc_path'', JStr ''/features''),
            (''referer'', JStr ''https://www.weblens.ai/docs''),
            (''build_sha'', JStr ''abc''), (''build_date'', JStr ''2024-01-01''),
            (''build_version'', JStr ''2.7.0''), (''account_plan'', JStr ''pro''),
            (''configFile'', JBool False), (''role'', JStr ''admin''),
            (''org_hash'', JStr ''md5:org_1''), (''user_id_hash'', JStr ''md5:u_1''),
            (''user_id'', JStr ''u_1''), (''org'', JStr ''org_1'')])]
   \<and> entries ''doc_host'' (trackProps exampleEnv exampleWindow nosyProps) = [Str ''self-hosted'']
   \<and> entries ''url'' (trackProps exampleEnv exampleWindow nosyProps) = [Str ''https://self-hosted/features'']
   \<and> track (exampleEnv\<lparr>window := Some (exampleWindow\<lparr>location := (location exampleWindow)\<lparr>hostname := ''other.example.org''\<rparr>\<rparr>)\<rparr>)
         ''View'' nosyProps freshState
       = track exampleEnv ''View'' nosyProps freshState"
proof -
  have m1: "True \<longleftrightarrow>
           (\<exists>p m q. hostname (location localWindow) = p @ m @ q \<and> map toLowerASCII m = ''localhost'')
           \<or> (\<exists>p q. hostname (location localWindow) = p @ ''127.0.0.1'' @ q)"
    using isLocalhost_examples(1) unfolding isLocalhost_iff by (simp add: sample_locations)
  have m2: "False \<longleftrightarrow>
           (\<exists>p m q. hostname (location exampleWindow) = p @ m @ q \<and> map toLowerASCII m = ''localhost'')
           \<or> (\<exists>p q. hostname (location exampleWindow) = p @ ''127.0.0.1'' @ q)"
    using isLocalhost_examples(3) unfolding isLocalhost_iff by (simp add: sample_locations)
  have m3: "(\<exists>p m q. ''127.0.0.1'' = p @ m @ q \<and> map toLowerASCII m = ''localhost'')
           \<or> (\<exists>p q. ''127.0.0.1'' = p @ ''127.0.0.1'' @ q)"
    using isLocalhost_examples(2) unfolding isLocalhost_iff .
  have m4: "\<not> ((\<exists>p m q. ''other.example.org'' = p @ m @ q \<and> map toLowerASCII m = ''localhost'')
           \<or> (\<exists>p q. ''other.example.org'' = p @ ''127.0.0.1'' @ q))"
    using isLocalhost_examples(4) unfolding isLocalhost_iff .
  obtain t where t: "JSON_stringify (Object (trackProps localCloudEnv localWindow nosyProps)) = Inr t"
    using sample_texts(1) by blast
  note d1 = dispatched_once [OF sample_windows(3) sample_states(2) _ sample_settings(10) t,
      of "''View''" freshState]
  note d2 = dispatched_once [OF sample_windows(2) sample_states(1) _ sample_settings(9) cloud_text,
      of "''View''" freshState]
  have h1: "''localhost'' = (if True then ''localhost'' else if isCloud localCloudEnv then ''cloud'' else ''self-hosted'')"
    by simp
  have h2: "''cloud'' = (if False then ''localhost'' else if isCloud cloudEnv then ''cloud'' else ''self-hosted'')"
    by (simp add: sample_settings)
  have h3: "''self-hosted'' = (if False then ''localhost'' else if isCloud exampleEnv then ''cloud'' else ''self-hosted'')"
    by (simp add: sample_settings)
  note T1 = track_masks_hostname [OF sample_windows(3) m1 h1, of nosyProps "''View''" freshState]
  note T2 = track_masks_hostname [OF sample_windows(2) m2 h2, of "[]" "''View''" freshState]
  note T3 = track_masks_hostname [OF sample_windows(1) m2 h3, of nosyProps "''View''" freshState]
  have e1: "entries ''doc_host'' (trackProps localCloudEnv localWindow nosyProps) = [Str ''localhost'']
      \<and> entries ''url'' (trackProps localCloudEnv localWindow nosyProps) = [Str ''http://localhost/features'']"
    using T1 by (simp add: sample_locations)
  have e2: "entries ''doc_host'' (trackProps cloudEnv exampleWindow []) = [Str ''cloud'']
      \<and> entries ''url'' (trackProps cloudEnv exampleWindow []) = [Str ''https://cloud/features'']"
    using T2 by (simp add: sample_locations)
  have e3: "entries ''doc_host'' (trackProps exampleEnv exampleWindow nosyProps) = [Str ''self-hosted'']
      \<and> entries ''url'' (trackProps exampleEnv exampleWindow nosyProps) = [Str ''https://self-hosted/features'']"
    using T3 by (simp add: sample_locations)
  have i1: "track (localCloudEnv\<lparr>window := Some (localWindow\<lparr>location := (location localWindow)\<lparr>hostname := ''127.0.0.1''\<rparr>\<rparr>)\<rparr>)
         ''View'' nosyProps freshState
       = track localCloudEnv ''View'' nosyProps freshState"
    using T1 [THEN conjunct2, THEN conjunct2, THEN conjunct2, THEN conjunct2, THEN spec,
        of "''127.0.0.1''"] m3
    by (simp only: simp_thms)
  have i3: "track (exampleEnv\<lparr>window := Some (exampleWindow\<lparr>location := (location exampleWindow)\<lparr>hostname := ''other.example.org''\<rparr>\<rparr>)\<rparr>)
         ''View'' nosyProps freshState
       = track exampleEnv ''View'' nosyProps freshState"
    using T3 [THEN conjunct2, THEN conjunct2, THEN conjunct2, THEN conjunct2, THEN spec,
        of "''other.example.org''"] m4
    by (simp only: simp_thms)
  have u1: "get_prop (trackProps localCloudEnv localWindow nosyProps) ''url'' = Str ''http://localhost/features''"
    by (simp add: trackProps_values maskedHost_def sample_locations isLocalhost_examples)
  have u2: "get_prop (trackProps cloudEnv exampleWindow []) ''url'' = Str ''https://cloud/features''"
    by (simp add: trackProps_values maskedHost_def sample_locations isLocalhost_examples sample_settings)
  show ?thesis
    using e1 e2 e3 i1 i3 d1(1,3) d2(2,3) u1 u2
    by (simp add: sample_settings)
qed

subsection \<open>The referrer\<close>




subsection \<open>Outside a browser\<close>

text \<open>
  Claim C8. Without \<open>window\<close> a call of \<open>track\<close> returns and leaves the state as it was, for
  every event name and property bag: the cookie jar, \<open>pageIds\<close>, the client and the log of
  effects, which would show a cookie read, a request or the creation of the client.
\<close>

theorem track_noop_outside_browser:
  "window env = None \<Longrightarrow> track env event props s = (Inr (), s)"
  by (simp add: track_def)

theorem track_noop_outside_browser_witness:
  "window (exampleEnv\<lparr>window := None\<rparr>) = None
   \<and> track (exampleEnv\<lparr>window := None\<rparr>) ''View'' nosyProps freshState = (Inr (), freshState)"
  using track_noop_outside_browser [of "exampleEnv\<lparr>window := None\<rparr>" "''View''" nosyProps freshState]
  by simp

subsection \<open>The device id\<close>

lemma getOrGenerateDeviceId_absent:
  assumes "cookies s DEVICE_ID_COOKIE = None"
  shows "getOrGenerateDeviceId env s =
     (lib_uuidv4 env (uuid_count s),
      s\<lparr>cookies := (cookies s)(DEVICE_ID_COOKIE \<mapsto>
             \<lparr>cookie_value = lib_uuidv4 env (uuid_count s),
              cookie_attributes = \<lparr>expires = Days 365, sameSite = ''strict''\<rparr>\<rparr>),
        uuid_count := Suc (uuid_count s),
        effects := effects s @ [CookiesGet DEVICE_ID_COOKIE,
                     CookiesSet DEVICE_ID_COOKIE (lib_uuidv4 env (uuid_count s))
                       \<lparr>expires = Days 365, sameSite = ''strict''\<rparr>]\<rparr>)"
  using assms
  by (simp add: getOrGenerateDeviceId_def cookie_or_uuid_def Cookies_get_def Cookies_set_def
      uuidv4_def emit_def)

lemma getOrGenerateDeviceId_present:
  assumes "cookies s DEVICE_ID_COOKIE = Some c" "cookie_value c \<noteq> []"
  shows "getOrGenerateDeviceId env s =
     (cookie_value c,
      s\<lparr>cookies := (cookies s)(DEVICE_ID_COOKIE \<mapsto>
             \<lparr>cookie_value = cookie_value c,
              cookie_attributes = \<lparr>expires = Days 365, sameSite = ''strict''\<rparr>\<rparr>),
        effects := effects s @ [CookiesGet DEVICE_ID_COOKIE,
                     CookiesSet DEVICE_ID_COOKIE (cookie_value c)
                       \<lparr>expires = Days 365, sameSite = ''strict''\<rparr>]\<rparr>)"
  using assms
  by (simp add: getOrGenerateDeviceId_def cookie_or_uuid_def Cookies_get_def Cookies_set_def
      uuidv4_def emit_def)

lemma deviceId_calls_present:
  assumes "cookies s DEVICE_ID_COOKIE = Some c" "cookie_value c = t" "t \<noteq> []"
  shows "fst (deviceId_calls envs s) = replicate (length envs) t
     \<and> uuid_count (snd (deviceId_calls envs s)) = uuid_count s
     \<and> map_option cookie_value (cookies (snd (deviceId_calls envs s)) DEVICE_ID_COOKIE) = Some t"
  using assms
proof (induction envs arbitrary: s c)
  case Nil
  then show ?case by simp
next
  case (Cons env envs)
  let ?s1 = "snd (getOrGenerateDeviceId env s)"
  have g: "getOrGenerateDeviceId env s =
     (t, s\<lparr>cookies := (cookies s)(DEVICE_ID_COOKIE \<mapsto>
             \<lparr>cookie_value = t,
              cookie_attributes = \<lparr>expires = Days 365, sameSite = ''strict''\<rparr>\<rparr>),
        effects := effects s @ [CookiesGet DEVICE_ID_COOKIE,
                     CookiesSet DEVICE_ID_COOKIE t
                       \<lparr>expires = Days 365, sameSite = ''strict''\<rparr>]\<rparr>)"
    using getOrGenerateDeviceId_present [of s c env] Cons.prems by simp
  have "cookies ?s1 DEVICE_ID_COOKIE =
      Some \<lparr>cookie_value = t, cookie_attributes = \<lparr>expires = Days 365, sameSite = ''strict''\<rparr>\<rparr>"
    by (simp add: g)
  from Cons.IH [OF this _ Cons.prems(3)]
  have "fst (deviceId_calls envs ?s1) = replicate (length envs) t
     \<and> uuid_count (snd (deviceId_calls envs ?s1)) = uuid_count ?s1
     \<and> map_option cookie_value (cookies (snd (deviceId_calls envs ?s1)) DEVICE_ID_COOKIE) = Some t"
    by simp
  then show ?case
    by (simp add: split_beta g)
qed

text \<open>
  Claim C9. \<open>uuidv4\<close> returns a non-empty token. When there is no device cookie, the first
  call of \<open>getOrGenerateDeviceId\<close> returns a fresh token and stores it in the cookie with
  \<open>expires: 365\<close> and \<open>sameSite: "strict"\<close>; that call and any number of calls after it all
  return this token, and \<open>uuidv4\<close> is called once. In any state in which the cookie holds
  a non-empty token, whatever happened in between, a call returns the token of the cookie,
  does not call \<open>uuidv4\<close> and writes the token back with the same attributes.
\<close>

theorem getOrGenerateDeviceId_idempotent:
  "(cookies s DEVICE_ID_COOKIE = None \<and> lib_uuidv4 env (uuid_count s) \<noteq> [] \<longrightarrow>
      fst (getOrGenerateDeviceId env s) = lib_uuidv4 env (uuid_count s)
      \<and> cookies (snd (getOrGenerateDeviceId env s)) DEVICE_ID_COOKIE =
          Some \<lparr>cookie_value = lib_uuidv4 env (uuid_count s),
                cookie_attributes = \<lparr>expires = Days 365, sameSite = ''strict''\<rparr>\<rparr>
      \<and> fst (deviceId_calls (env # envs) s)
          = replicate (Suc (length envs)) (lib_uuidv4 env (uuid_count s))
      \<and> uuid_count (snd (deviceId_calls (env # envs) s)) = Suc (uuid_count s))
   \<and> (cookies s' DEVICE_ID_COOKIE = Some c \<and> cookie_value c \<noteq> [] \<longrightarrow>
      fst (getOrGenerateDeviceId env' s') = cookie_value c
      \<and> uuid_count (snd (getOrGenerateDeviceId env' s')) = uuid_count s'
      \<and> cookies (snd (getOrGenerateDeviceId env' s')) DEVICE_ID_COOKIE =
          Some \<lparr>cookie_value = cookie_value c,
                cookie_attributes = \<lparr>expires = Days 365, sameSite = ''strict''\<rparr>\<rparr>)"
proof (intro conjI impI)
  assume a: "cookies s DEVICE_ID_COOKIE = None \<and> lib_uuidv4 env (uuid_count s) \<noteq> []"
  let ?t = "lib_uuidv4 env (uuid_count s)"
  let ?s1 = "snd (getOrGenerateDeviceId env s)"
  note g = getOrGenerateDeviceId_absent [of s env]
  show "fst (getOrGenerateDeviceId env s) = ?t"
    using a by (simp add: g)
  show c1: "cookies ?s1 DEVICE_ID_COOKIE =
          Some \<lparr>cookie_value = ?t,
                cookie_attributes = \<lparr>expires = Days 365, sameSite = ''strict''\<rparr>\<rparr>"
    using a by (simp add: g)
  have u1: "uuid_count ?s1 = Suc (uuid_count s)"
    using a by (simp add: g)
  have rest: "fst (deviceId_calls envs ?s1) = replicate (length envs) ?t
     \<and> uuid_count (snd (deviceId_calls envs ?s1)) = uuid_count ?s1"
    using deviceId_calls_present [OF c1, of ?t envs] a by simp
  show "fst (deviceId_calls (env # envs) s) = replicate (Suc (length envs)) ?t"
    using a rest by (simp add: split_beta g)
  show "uuid_count (snd (deviceId_calls (env # envs) s)) = Suc (uuid_count s)"
    using rest u1 by (simp add: split_beta)
next
  assume b: "cookies s' DEVICE_ID_COOKIE = Some c \<and> cookie_value c \<noteq> []"
  note g = getOrGenerateDeviceId_present [of s' c env']
  show "fst (getOrGenerateDeviceId env' s') = cookie_value c"
    using b by (simp add: g)
  show "uuid_count (snd (getOrGenerateDeviceId env' s')) = uuid_count s'"
    using b by (simp add: g)
  show "cookies (snd (getOrGenerateDeviceId env' s')) DEVICE_ID_COOKIE =
          Some \<lparr>cookie_value = cookie_value c,
                cookie_attributes = \<lparr>expires = Days 365, sameSite = ''strict''\<rparr>\<rparr>"
    using b by (simp add: g)
qed

theorem getOrGenerateDeviceId_idempotent_witness:
  "fst (getOrGenerateDeviceId exampleEnv freshState) = ''uuid-''
   \<and> cookies (snd (getOrGenerateDeviceId exampleEnv freshState)) ''gb_device_id'' =
       Some \<lparr>cookie_value = ''uuid-'',
             cookie_attributes = \<lparr>expires = Days 365, sameSite = ''strict''\<rparr>\<rparr>
   \<and> fst (deviceId_calls [exampleEnv, localCloudEnv, exampleEnv] freshState)
       = [''uuid-'', ''uuid-'', ''uuid-'']
   \<and> uuid_count (snd (deviceId_calls [exampleEnv, localCloudEnv, exampleEnv] freshState)) = 1
   \<and> fst (getOrGenerateDeviceId localCloudEnv (snd (getOrGenerateDeviceId exampleEnv freshState)))
       = ''uuid-''"
proof -
  let ?s' = "snd (getOrGenerateDeviceId exampleEnv freshState)"
  let ?c = "\<lparr>cookie_value = ''uuid-'',
             cookie_attributes = \<lparr>expires = Days 365, sameSite = ''strict''\<rparr>\<rparr>"
  have a: "cookies freshState DEVICE_ID_COOKIE = None"
    by (simp add: freshState_def)
  have u: "lib_uuidv4 exampleEnv (uuid_count freshState) = ''uuid-''"
    by (simp add: exampleEnv_def freshState_def)
  have n: "uuid_count freshState = 0"
    by (simp add: freshState_def)
  have c: "cookies ?s' DEVICE_ID_COOKIE = Some ?c"
    by (simp add: getOrGenerateDeviceId_absent [OF a] u)
  show ?thesis
    using getOrGenerateDeviceId_idempotent
      [of freshState exampleEnv "[localCloudEnv, exampleEnv]" ?s' ?c localCloudEnv] a u c n
    by (simp add: DEVICE_ID_COOKIE_def)
qed

subsection \<open>Blanked properties\<close>

text \<open>
  Claim C10, as the code has it, for the property bag \<open>trackProps\<close> of a call in a browser.
  Whatever the caller supplied under these or other keys, the bag holds exactly one
  \<open>page_title\<close>, one \<open>source_ip\<close> and one \<open>doc_search\<close>, each the empty string, and exactly one
  \<open>page_url\<close> and one \<open>doc_path\<close>, each \<open>location.pathname\<close>. Every object forwarded to the
  analytics client is this bag, and the \<open>properties_json\<close> of every event posted to the
  warehouse is \<open>JSON.stringify\<close> of this bag: a JSON object with the same five values, each
  held once, when the bag has no \<open>toJSON\<close> function.
\<close>

theorem track_blanks_private_fields:
  assumes "window env = Some w"
  shows "entries ''page_title'' (trackProps env w props) = [Str []]
     \<and> entries ''source_ip'' (trackProps env w props) = [Str []]
     \<and> entries ''doc_search'' (trackProps env w props) = [Str []]
     \<and> entries ''page_url'' (trackProps env w props) = [Str (pathname (location w))]
     \<and> entries ''doc_path'' (trackProps env w props) = [Str (pathname (location w))]
     \<and> (\<forall>tp \<in> set (forwardedProps (emitted env event props s)). tp = trackProps env w props)
     \<and> (\<forall>r \<in> set (fetches (emitted env event props s)).
           JSON_stringify (Object (trackProps env w props)) = Inr (properties_json (fetch_body r))
           \<and> (toJSON_result (Object (trackProps env w props)) = None \<longrightarrow>
                (\<exists>js. properties_json (fetch_body r) = Some (JObject js)
                    \<and> entries ''page_title'' js = [JStr []]
                    \<and> entries ''source_ip'' js = [JStr []]
                    \<and> entries ''doc_search'' js = [JStr []]
                    \<and> entries ''page_url'' js = [JStr (pathname (location w))]
                    \<and> entries ''doc_path'' js = [JStr (pathname (location w))])))"
proof -
  note e = trackProps_entries(2,3,6,1,7) [of env w props]
  have f: "\<forall>tp \<in> set (forwardedProps (emitted env event props s)). tp = trackProps env w props"
    using dispatch_of_bag(1) [OF assms(1)] by blast
  have p: "\<forall>r \<in> set (fetches (emitted env event props s)).
           JSON_stringify (Object (trackProps env w props)) = Inr (properties_json (fetch_body r))
           \<and> (toJSON_result (Object (trackProps env w props)) = None \<longrightarrow>
                (\<exists>js. properties_json (fetch_body r) = Some (JObject js)
                    \<and> entries ''page_title'' js = [JStr []]
                    \<and> entries ''source_ip'' js = [JStr []]
                    \<and> entries ''doc_search'' js = [JStr []]
                    \<and> entries ''page_url'' js = [JStr (pathname (location w))]
                    \<and> entries ''doc_path'' js = [JStr (pathname (location w))]))"
  proof (intro ballI conjI impI)
    fix r
    assume r: "r \<in> set (fetches (emitted env event props s))"
    show "JSON_stringify (Object (trackProps env w props)) = Inr (properties_json (fetch_body r))"
      using dispatch_of_bag(2) [OF assms(1) r] by simp
    assume t: "toJSON_result (Object (trackProps env w props)) = None"
    note q = posted_entry [OF assms(1) r t]
    obtain js where js: "properties_json (fetch_body r) = Some (JObject js)"
      and e1: "entries ''page_title'' js = [JStr []]"
      using q [OF e(1)] by blast
    have e2: "entries ''source_ip'' js = [JStr []]"
      using q [OF e(2)] js by auto
    have e3: "entries ''doc_search'' js = [JStr []]"
      using q [OF e(3)] js by auto
    have e4: "entries ''page_url'' js = [JStr (pathname (location w))]"
      using q [OF e(4)] js by auto
    have e5: "entries ''doc_path'' js = [JStr (pathname (location w))]"
      using q [OF e(5)] js by auto
    show "\<exists>js. properties_json (fetch_body r) = Some (JObject js)
                    \<and> entries ''page_title'' js = [JStr []]
                    \<and> entries ''source_ip'' js = [JStr []]
                    \<and> entries ''doc_search'' js = [JStr []]
                    \<and> entries ''page_url'' js = [JStr (pathname (location w))]
                    \<and> entries ''doc_path'' js = [JStr (pathname (location w))]"
      using js e1 e2 e3 e4 e5 by blast
  qed
  from e f p show ?thesis
    by (intro conjI)
qed

text \<open>
  The claim says that no page title or query string is transmitted whatever the caller's
  other keys are. One of these keys can be \<open>toJSON\<close>: \<open>JSON.stringify\<close> then posts what the
  function returns instead of the bag. Here the \<open>properties_json\<close> of the request carries a
  page title and a query string.
\<close>

theorem track_blanks_private_fields_counterexample:
  "window exampleEnv = Some exampleWindow
   \<and> postedProperties (emitted exampleEnv ''View'' toJSONProps freshState)
       = [Some (JObject [(''page_title'', JStr ''Quarterly numbers''),
                         (''doc_search'', JStr ''?token=1'')])]"
  using dispatched_once(2) [OF sample_windows(1) sample_states(1) _ sample_settings(8) toJSON_texts(1)]
  by (simp add: sample_settings sample_windows)

theorem track_blanks_private_fields_witness:
  "entries ''page_title'' nosyProps = [Str ''Quarterly numbers'']
   \<and> entries ''page_title'' (trackProps exampleEnv exampleWindow nosyProps) = [Str []]
   \<and> entries ''source_ip'' (trackProps exampleEnv exampleWindow nosyProps) = [Str []]
   \<and> entries ''doc_search'' (trackProps exampleEnv exampleWindow nosyProps) = [Str []]
   \<and> entries ''page_url'' (trackProps exampleEnv exampleWindow nosyProps) = [Str ''/features'']
   \<and> entries ''doc_path'' (trackProps exampleEnv exampleWindow nosyProps) = [Str ''/features'']
   \<and> entries ''button'' (trackProps exampleEnv exampleWindow nosyProps) = [Str ''save'']
   \<and> forwardedProps (emitted exampleEnv ''View'' nosyProps freshState)
       = [trackProps exampleEnv exampleWindow nosyProps]
   \<and> postedProperties (emitted exampleEnv ''View'' nosyProps freshState)
       = [Some (JObject
           [(''page_title'', JStr []), (''doc_search'', JStr []), (''source_ip'', JStr []),
            (''button'', JStr ''save''), (''page_url'', JStr ''/features''),
            (''url'', JStr ''https://self-hosted/features''), (''doc_host'', JStr ''self-hosted''),
            (''doc_path'', JStr ''/features''), (''referer'', JStr ''https://www.weblens.ai/docs''),
            (''build_sha'', JStr ''abc''), (''build_date'', JStr ''2024-01-01''),
            (''build_version'', JStr ''2.7.0''), (''account_plan'', JStr ''pro''),
            (''configFile'', JBool False), (''role'', JStr ''admin''),
            (''org_hash'', JStr ''md5:org_1''), (''user_id_hash'', JStr ''md5:u_1''),
            (''user_id'', JStr []), (''org'', JStr [])])]"
proof -
  note T = track_blanks_private_fields [OF sample_windows(1), of nosyProps "''View''" freshState]
  note d = dispatched_once [OF sample_windows(1) sample_states(1) _ sample_settings(8)
      example_text, of "''View''" freshState]
  have n: "entries ''page_title'' nosyProps = [Str ''Quarterly numbers'']"
    by (simp add: entries_def nosyProps_def)
  have b: "entries ''button'' (trackProps exampleEnv exampleWindow nosyProps) = [Str ''save'']"
    by (simp add: example_bag entries_def)
  have e: "entries ''page_title'' (trackProps exampleEnv exampleWindow nosyProps) = [Str []]
     \<and> entries ''source_ip'' (trackProps exampleEnv exampleWindow nosyProps) = [Str []]
     \<and> entries ''doc_search'' (trackProps exampleEnv exampleWindow nosyProps) = [Str []]
     \<and> entries ''page_url'' (trackProps exampleEnv exampleWindow nosyProps) = [Str ''/features'']
     \<and> entries ''doc_path'' (trackProps exampleEnv exampleWindow nosyProps) = [Str ''/features'']"
    using T by (simp add: sample_locations)
  show ?thesis
    using e n b d(1,2) by (simp add: sample_settings)
qed

subsection \<open>parseSnapshotDimension classifies by prefix\<close>

lemma take_eq_prefix: "take (length p) d = p \<longleftrightarrow> prefix p d"
proof
  assume "take (length p) d = p"
  then have "d = p @ drop (length p) d"
    by (metis append_take_drop_id)
  then show "prefix p d"
    by (rule prefixI)
next
  assume "prefix p d"
  then obtain s where "d = p @ s"
    by (auto simp: prefix_def)
  then show "take (length p) d = p"
    by simp
qed

text \<open>
  Claim C4. \<open>parseSnapshotDimension\<close> is a function of its argument (and of the hash
  function) alone. On the empty string it returns type \<open>none\<close> with the empty id; on a
  string \<open>pre:x\<close> it returns type \<open>predefined\<close> with id \<open>x\<close>; on a string \<open>exp:x\<close> it
  returns type \<open>experiment\<close> with id \<open>md5 x\<close>; on every other string \<open>d\<close> it returns type
  \<open>user\<close> with id \<open>md5 d\<close>.
\<close>

theorem parseSnapshotDimension_spec:
  "parseSnapshotDimension md5 '''' = \<lparr>dim_type = ''none'', dim_id = ''''\<rparr>
   \<and> parseSnapshotDimension md5 (''pre:'' @ x) = \<lparr>dim_type = ''predefined'', dim_id = x\<rparr>
   \<and> parseSnapshotDimension md5 (''exp:'' @ x) = \<lparr>dim_type = ''experiment'', dim_id = md5 x\<rparr>
   \<and> (d \<noteq> '''' \<and> \<not> prefix ''pre:'' d \<and> \<not> prefix ''exp:'' d
        \<longrightarrow> parseSnapshotDimension md5 d = \<lparr>dim_type = ''user'', dim_id = md5 d\<rparr>)"
proof -
  have pre: "take 4 d = ''pre:'' \<longleftrightarrow> prefix ''pre:'' d"
  proof -
    have "(4::nat) = length ''pre:''" by simp
    then show ?thesis by (simp only: take_eq_prefix)
  qed
  have exp: "take 4 d = ''exp:'' \<longleftrightarrow> prefix ''exp:'' d"
  proof -
    have "(4::nat) = length ''exp:''" by simp
    then show ?thesis by (simp only: take_eq_prefix)
  qed
  show ?thesis
    by (simp add: parseSnapshotDimension_def pre exp)
qed

theorem parseSnapshotDimension_spec_witness:
  "parseSnapshotDimension rev '''' = \<lparr>dim_type = ''none'', dim_id = ''''\<rparr>
   \<and> parseSnapshotDimension rev ''pre:abc'' = \<lparr>dim_type = ''predefined'', dim_id = ''abc''\<rparr>
   \<and> parseSnapshotDimension rev ''exp:xyz'' = \<lparr>dim_type = ''experiment'', dim_id = ''zyx''\<rparr>
   \<and> parseSnapshotDimension rev ''foo'' = \<lparr>dim_type = ''user'', dim_id = ''oof''\<rparr>"
  using parseSnapshotDimension_spec [of rev "''abc''" "''foo''"]
    parseSnapshotDimension_spec [of rev "''xyz''" "''foo''"]
  by simp

subsection \<open>The update-experiment handler\<close>

lemmas handler_defs = updateExperiment_def checkTrackingKey_def applyUpdate_def called_def
  newCalls_def projectsOk_def projectCalls_def

lemma unrecognized_configured:
  "unrecognizedAssignmentQuery b e ds \<longleftrightarrow>
     (\<exists>a. assignmentQueryId b = Given a \<and> a \<noteq> exposureQueryId e
        \<and> a \<notin> set (configuredExposureQueryIds ds))"
  by (auto simp: unrecognizedAssignmentQuery_def configuredExposureQueryIds_def list_ex_iff
      split: field.splits option.splits)

text \<open>The handler up to the check of the tracking key, one step after the other.\<close>

lemma handler_not_found:
  assumes "getExperimentById dl (db sv) (params_id req) = None"
  shows "updateExperiment dl req sv =
     (Inl (Error ''Could not find the experiment to update''),
      sv\<lparr>calls := calls sv @ [GetExperimentById (params_id req)]\<rparr>)"
  using assms by (simp add: handler_defs)

lemma handler_projects:
  assumes "getExperimentById dl (db sv) (params_id req) = Some e"
    and "\<not> projectsOk dl req sv"
  shows "updateExperiment dl req sv =
     (Inl ProjectsError,
      sv\<lparr>calls := calls sv @ GetExperimentById (params_id req) # projectCalls req\<rparr>)"
  using assms by (auto simp: handler_defs Let_def split: field.splits)

lemma handler_permission:
  assumes "getExperimentById dl (db sv) (params_id req) = Some e"
    and "projectsOk dl req sv"
    and "\<not> canUpdateExperiment dl e (body req)"
  shows "updateExperiment dl req sv =
     (Inl PermissionError,
      sv\<lparr>calls := calls sv @ GetExperimentById (params_id req) # projectCalls req
                 @ [CanUpdateExperiment]\<rparr>)"
  using assms by (auto simp: handler_defs Let_def split: field.splits)

lemma handler_datasource:
  assumes "getExperimentById dl (db sv) (params_id req) = Some e"
    and "projectsOk dl req sv"
    and "canUpdateExperiment dl e (body req)"
    and "getDataSourceById dl (db sv) (datasource e) = None"
  shows "updateExperiment dl req sv =
     (Inl (Error ''No datasource for this experiment was found.''),
      sv\<lparr>calls := calls sv @ GetExperimentById (params_id req) # projectCalls req
                 @ [CanUpdateExperiment, GetDataSourceById (datasource e)]\<rparr>)"
  using assms by (auto simp: handler_defs Let_def split: field.splits)

lemma handler_unrecognized:
  assumes "getExperimentById dl (db sv) (params_id req) = Some e"
    and "projectsOk dl req sv"
    and "canUpdateExperiment dl e (body req)"
    and "getDataSourceById dl (db sv) (datasource e) = Some ds"
    and "assignmentQueryId (body req) = Given a"
    and "a \<noteq> exposureQueryId e"
    and "a \<notin> set (configuredExposureQueryIds ds)"
  shows "updateExperiment dl req sv =
     (Inl (Error (''Unrecognized assignment query ID: '' @ a)),
      sv\<lparr>calls := calls sv @ GetExperimentById (params_id req) # projectCalls req
                 @ [CanUpdateExperiment, GetDataSourceById (datasource e)]\<rparr>)"
proof -
  have "unrecognizedAssignmentQuery (body req) e ds"
    using assms(5-7) by (auto simp: unrecognized_configured)
  then show ?thesis
    using assms(1-5) by (auto simp: handler_defs Let_def split: field.splits)
qed

lemma handler_tracking_key:
  assumes "getExperimentById dl (db sv) (params_id req) = Some e"
    and "projectsOk dl req sv"
    and "canUpdateExperiment dl e (body req)"
    and "getDataSourceById dl (db sv) (datasource e) = Some ds"
    and "\<not> unrecognizedAssignmentQuery (body req) e ds"
  shows "updateExperiment dl req sv =
     checkTrackingKey dl req e
       (sv\<lparr>calls := calls sv @ GetExperimentById (params_id req) # projectCalls req
                  @ [CanUpdateExperiment, GetDataSourceById (datasource e)]\<rparr>)"
  using assms by (auto simp: updateExperiment_def called_def projectsOk_def projectCalls_def Let_def
      split: field.splits)

lemma handler_conflict:
  assumes "getExperimentById dl (db sv) (params_id req) = Some e"
    and "projectsOk dl req sv"
    and "canUpdateExperiment dl e (body req)"
    and "getDataSourceById dl (db sv) (datasource e) = Some ds"
    and "\<not> unrecognizedAssignmentQuery (body req) e ds"
    and "body_trackingKey (body req) = Given tk"
    and "tk \<noteq> trackingKey e"
    and "getExperimentByTrackingKey dl (db sv) tk = Some e'"
  shows "updateExperiment dl req sv =
     (Inl (Error (''Experiment with tracking key already exists: '' @ tk)),
      sv\<lparr>calls := calls sv @ GetExperimentById (params_id req) # projectCalls req
                 @ [CanUpdateExperiment, GetDataSourceById (datasource e),
                    GetExperimentByTrackingKey tk]\<rparr>)"
  using assms(6-8)
  by (simp add: handler_tracking_key [OF assms(1-5)] checkTrackingKey_def called_def)

lemma newCalls_eq:
  "updateExperiment dl req sv = (r, sv\<lparr>calls := calls sv @ cs\<rparr>) \<Longrightarrow> newCalls dl req sv = cs"
  by (simp add: newCalls_def)

lemma same_key_no_lookup:
  assumes "getExperimentById dl (db sv) (params_id req) = Some e"
    and "body_trackingKey (body req) = Given tk"
    and "tk = trackingKey e"
  shows "GetExperimentByTrackingKey k \<notin> set (newCalls dl req sv)"
  using assms by (auto simp: handler_defs Let_def split_beta split: option.splits field.splits)

lemma check_skipped:
  assumes "assignmentQueryId (body req) = Absent \<or> assignmentQueryId (body req) = IsNull
      \<or> (\<exists>e. getExperimentById dl (db sv) (params_id req) = Some e
            \<and> assignmentQueryId (body req) = Given (exposureQueryId e))"
  shows "fst (updateExperiment dl req sv) \<noteq> Inl (Error (''Unrecognized assignment query ID: '' @ x))"
  using assms
  by (auto simp: handler_defs unrecognizedAssignmentQuery_def Let_def split_beta
      split: option.splits field.splits)

lemma mem_facts:
  "getExperimentById (memLayer p) (db memServer) ''exp_1'' = Some exp1"
  "getExperimentByTrackingKey (memLayer p) (db memServer) ''pricing-v2'' = Some exp2"
  "getDataSourceById (memLayer p) (db memServer) ''ds_1'' = Some ds1"
  "canUpdateExperiment (memLayer p) e b = p"
  "ensureProjectsExist (memLayer p) (db memServer) [''prj_9''] = False"
  "trackingKey exp1 = ''checkout-v1''"
  "exposureQueryId exp1 = ''user_id''"
  "datasource exp1 = ''ds_1''"
  "configuredExposureQueryIds ds1 = [''user_id'', ''anonymous_id'']"
  by (simp_all add: memLayer_def memServer_def exp1_def exp2_def ds1_def
      configuredExposureQueryIds_def)

lemma request_facts:
  "params_id duplicateKeyRequest = ''exp_1''"
  "body_trackingKey (body duplicateKeyRequest) = Given ''pricing-v2''"
  "assignmentQueryId (body duplicateKeyRequest) = Absent"
  "project (body duplicateKeyRequest) = Absent"
  "params_id sameKeyRequest = ''exp_1''"
  "body_trackingKey (body sameKeyRequest) = Given ''checkout-v1''"
  "params_id unknownQueryRequest = ''exp_1''"
  "assignmentQueryId (body unknownQueryRequest) = Given ''device_id''"
  "project (body unknownQueryRequest) = Absent"
  "assignmentQueryId (body nullQueryRequest) = IsNull"
  by (simp_all add: duplicateKeyRequest_def sameKeyRequest_def unknownQueryRequest_def
      nullQueryRequest_def emptyBody_def)

lemma conflict_outcome:
  assumes "getExperimentById dl (db sv) (params_id req) = Some e"
    and "body_trackingKey (body req) = Given tk"
    and "tk \<noteq> trackingKey e"
    and "getExperimentByTrackingKey dl (db sv) tk = Some e'"
  shows "updateExperiment dl req sv =
     (Inl (if \<not> projectsOk dl req sv then ProjectsError
           else if \<not> canUpdateExperiment dl e (body req) then PermissionError
           else case getDataSourceById dl (db sv) (datasource e) of
                  None \<Rightarrow> Error ''No datasource for this experiment was found.''
                | Some ds \<Rightarrow>
                    (case assignmentQueryId (body req) of
                       Given a \<Rightarrow>
                         if a \<noteq> exposureQueryId e \<and> a \<notin> set (configuredExposureQueryIds ds)
                         then Error (''Unrecognized assignment query ID: '' @ a)
                         else Error (''Experiment with tracking key already exists: '' @ tk)
                     | _ \<Rightarrow> Error (''Experiment with tracking key already exists: '' @ tk))),
      sv\<lparr>calls := calls sv @
          GetExperimentById (params_id req) # projectCalls req @
          (if \<not> projectsOk dl req sv then []
           else CanUpdateExperiment #
             (if \<not> canUpdateExperiment dl e (body req) then []
              else GetDataSourceById (datasource e) #
                (case getDataSourceById dl (db sv) (datasource e) of
                   None \<Rightarrow> []
                 | Some ds \<Rightarrow>
                     (case assignmentQueryId (body req) of
                        Given a \<Rightarrow>
                          if a \<noteq> exposureQueryId e \<and> a \<notin> set (configuredExposureQueryIds ds)
                          then [] else [GetExperimentByTrackingKey tk]
                      | _ \<Rightarrow> [GetExperimentByTrackingKey tk]))))\<rparr>)"
proof (cases "projectsOk dl req sv")
  case False
  then show ?thesis
    by (simp add: handler_projects [OF assms(1)])
next
  case p: True
  show ?thesis
  proof (cases "canUpdateExperiment dl e (body req)")
    case False
    then show ?thesis
      using p by (simp add: handler_permission [OF assms(1)])
  next
    case c: True
    show ?thesis
    proof (cases "getDataSourceById dl (db sv) (datasource e)")
      case None
      then show ?thesis
        using p c by (simp add: handler_datasource [OF assms(1)])
    next
      case (Some ds)
      show ?thesis
      proof (cases "unrecognizedAssignmentQuery (body req) e ds")
        case True
        then obtain a where a: "assignmentQueryId (body req) = Given a" "a \<noteq> exposureQueryId e"
          "a \<notin> set (configuredExposureQueryIds ds)"
          by (auto simp: unrecognized_configured)
        show ?thesis
          using p c Some a by (simp add: handler_unrecognized [OF assms(1) p c Some a])
      next
        case False
        have "updateExperiment dl req sv =
           (Inl (Error (''Experiment with tracking key already exists: '' @ tk)),
            sv\<lparr>calls := calls sv @ GetExperimentById (params_id req) # projectCalls req
                 @ [CanUpdateExperiment, GetDataSourceById (datasource e),
                    GetExperimentByTrackingKey tk]\<rparr>)"
          by (rule handler_conflict [OF assms(1) p c Some False assms(2-4)])
        then show ?thesis
          using p c Some False
          by (auto simp: unrecognized_configured split: field.splits)
      qed
    qed
  qed
qed

text \<open>
  Claim C2, as the handler has it. Take a request for an existing experiment whose body
  has a tracking key that differs from the experiment's and that \<open>getExperimentByTrackingKey\<close>
  finds. The request fails, \<open>updateExperimentToDb\<close> is not called and the database is as it
  was. The steps run in the order of the handler, and the first that fails gives the error
  and ends the calls: the check of the project, the check of the permission, the lookup of
  the datasource, the check of the assignment query id; when all four pass, the lookup of
  the tracking key is made and the error is the conflict, its message ending in the
  tracking key. When the tracking key of the body is the experiment's own,
  \<open>getExperimentByTrackingKey\<close> is not called.
\<close>

theorem duplicate_trackingKey_conflict:
  "(getExperimentById dl (db sv) (params_id req) = Some e
      \<and> body_trackingKey (body req) = Given tk \<and> tk \<noteq> trackingKey e
      \<and> getExperimentByTrackingKey dl (db sv) tk = Some e' \<longrightarrow>
      fst (updateExperiment dl req sv) =
        Inl (if \<not> projectsOk dl req sv then ProjectsError
             else if \<not> canUpdateExperiment dl e (body req) then PermissionError
             else case getDataSourceById dl (db sv) (datasource e) of
                    None \<Rightarrow> Error ''No datasource for this experiment was found.''
                  | Some ds \<Rightarrow>
                      (case assignmentQueryId (body req) of
                         Given a \<Rightarrow>
                           if a \<noteq> exposureQueryId e \<and> a \<notin> set (configuredExposureQueryIds ds)
                           then Error (''Unrecognized assignment query ID: '' @ a)
                           else Error (''Experiment with tracking key already exists: '' @ tk)
                       | _ \<Rightarrow> Error (''Experiment with tracking key already exists: '' @ tk)))
      \<and> newCalls dl req sv =
          GetExperimentById (params_id req) # projectCalls req @
          (if \<not> projectsOk dl req sv then []
           else CanUpdateExperiment #
             (if \<not> canUpdateExperiment dl e (body req) then []
              else GetDataSourceById (datasource e) #
                (case getDataSourceById dl (db sv) (datasource e) of
                   None \<Rightarrow> []
                 | Some ds \<Rightarrow>
                     (case assignmentQueryId (body req) of
                        Given a \<Rightarrow>
                          if a \<noteq> exposureQueryId e \<and> a \<notin> set (configuredExposureQueryIds ds)
                          then [] else [GetExperimentByTrackingKey tk]
                      | _ \<Rightarrow> [GetExperimentByTrackingKey tk]))))
      \<and> UpdateExperimentToDb \<notin> set (newCalls dl req sv)
      \<and> db (snd (updateExperiment dl req sv)) = db sv)
   \<and> (getExperimentById dl (db sv) (params_id req) = Some e
      \<and> body_trackingKey (body req) = Given (trackingKey e) \<longrightarrow>
      (\<forall>k. GetExperimentByTrackingKey k \<notin> set (newCalls dl req sv)))"
proof (intro conjI impI allI)
  assume a: "getExperimentById dl (db sv) (params_id req) = Some e
      \<and> body_trackingKey (body req) = Given tk \<and> tk \<noteq> trackingKey e
      \<and> getExperimentByTrackingKey dl (db sv) tk = Some e'"
  then have o: "getExperimentById dl (db sv) (params_id req) = Some e"
    "body_trackingKey (body req) = Given tk" "tk \<noteq> trackingKey e"
    "getExperimentByTrackingKey dl (db sv) tk = Some e'"
    by simp_all
  note c = conflict_outcome [OF o]
  show "fst (updateExperiment dl req sv) =
        Inl (if \<not> projectsOk dl req sv then ProjectsError
             else if \<not> canUpdateExperiment dl e (body req) then PermissionError
             else case getDataSourceById dl (db sv) (datasource e) of
                    None \<Rightarrow> Error ''No datasource for this experiment was found.''
                  | Some ds \<Rightarrow>
                      (case assignmentQueryId (body req) of
                         Given a \<Rightarrow>
                           if a \<noteq> exposureQueryId e \<and> a \<notin> set (configuredExposureQueryIds ds)
                           then Error (''Unrecognized assignment query ID: '' @ a)
                           else Error (''Experiment with tracking key already exists: '' @ tk)
                       | _ \<Rightarrow> Error (''Experiment with tracking key already exists: '' @ tk)))"
    by (simp only: c fst_conv)
  show n: "newCalls dl req sv =
          GetExperimentById (params_id req) # projectCalls req @
          (if \<not> projectsOk dl req sv then []
           else CanUpdateExperiment #
             (if \<not> canUpdateExperiment dl e (body req) then []
              else GetDataSourceById (datasource e) #
                (case getDataSourceById dl (db sv) (datasource e) of
                   None \<Rightarrow> []
                 | Some ds \<Rightarrow>
                     (case assignmentQueryId (body req) of
                        Given a \<Rightarrow>
                          if a \<noteq> exposureQueryId e \<and> a \<notin> set (configuredExposureQueryIds ds)
                          then [] else [GetExperimentByTrackingKey tk]
                      | _ \<Rightarrow> [GetExperimentByTrackingKey tk]))))"
    by (rule newCalls_eq [OF c])
  show "UpdateExperimentToDb \<notin> set (newCalls dl req sv)"
    unfolding n by (auto simp: projectCalls_def split: field.splits option.splits if_splits)
  show "db (snd (updateExperiment dl req sv)) = db sv"
    by (simp only: c snd_conv) simp
next
  fix k
  assume "getExperimentById dl (db sv) (params_id req) = Some e
      \<and> body_trackingKey (body req) = Given (trackingKey e)"
  then show "GetExperimentByTrackingKey k \<notin> set (newCalls dl req sv)"
    using same_key_no_lookup [of dl sv req e "trackingKey e" k] by simp
qed

text \<open>
  The conflict is not what every such request gets: the permission check comes first. Here
  the tracking key of the body is taken by another experiment and the caller may not update
  the experiment; the error is the permission error.
\<close>

theorem duplicate_trackingKey_conflict_counterexample:
  "getExperimentById (memLayer False) (db memServer) (params_id duplicateKeyRequest) = Some exp1
   \<and> body_trackingKey (body duplicateKeyRequest) = Given ''pricing-v2''
   \<and> ''pricing-v2'' \<noteq> trackingKey exp1
   \<and> getExperimentByTrackingKey (memLayer False) (db memServer) ''pricing-v2'' = Some exp2
   \<and> fst (updateExperiment (memLayer False) duplicateKeyRequest memServer) = Inl PermissionError"
  by (simp add: handler_defs memLayer_def memServer_def duplicateKeyRequest_def emptyBody_def
      exp1_def exp2_def ds1_def unrecognizedAssignmentQuery_def)

theorem duplicate_trackingKey_conflict_witness:
  "fst (updateExperiment (memLayer True) duplicateKeyRequest memServer)
     = Inl (Error ''Experiment with tracking key already exists: pricing-v2'')
   \<and> newCalls (memLayer True) duplicateKeyRequest memServer
     = [GetExperimentById ''exp_1'', CanUpdateExperiment, GetDataSourceById ''ds_1'',
        GetExperimentByTrackingKey ''pricing-v2'']
   \<and> db (snd (updateExperiment (memLayer True) duplicateKeyRequest memServer)) = db memServer
   \<and> fst (updateExperiment (memLayer False) duplicateKeyRequest memServer) = Inl PermissionError
   \<and> newCalls (memLayer False) duplicateKeyRequest memServer
     = [GetExperimentById ''exp_1'', CanUpdateExperiment]
   \<and> fst (updateExperiment (memLayer True)
            (duplicateKeyRequest\<lparr>body := (body duplicateKeyRequest)\<lparr>project := Given ''prj_9''\<rparr>\<rparr>) memServer)
     = Inl ProjectsError
   \<and> newCalls (memLayer True)
        (duplicateKeyRequest\<lparr>body := (body duplicateKeyRequest)\<lparr>project := Given ''prj_9''\<rparr>\<rparr>) memServer
     = [GetExperimentById ''exp_1'', EnsureProjectsExist [''prj_9'']]
   \<and> GetExperimentByTrackingKey ''checkout-v1''
       \<notin> set (newCalls (memLayer True) sameKeyRequest memServer)"
proof -
  let ?q = "duplicateKeyRequest\<lparr>body := (body duplicateKeyRequest)\<lparr>project := Given ''prj_9''\<rparr>\<rparr>"
  note T1 = duplicate_trackingKey_conflict
      [of "memLayer True" memServer duplicateKeyRequest exp1 "''pricing-v2''" exp2, THEN conjunct1]
  note T2 = duplicate_trackingKey_conflict
      [of "memLayer False" memServer duplicateKeyRequest exp1 "''pricing-v2''" exp2, THEN conjunct1]
  note T3 = duplicate_trackingKey_conflict
      [of "memLayer True" memServer ?q exp1 "''pricing-v2''" exp2, THEN conjunct1]
  note T4 = duplicate_trackingKey_conflict
      [of "memLayer True" memServer sameKeyRequest exp1 "''pricing-v2''" exp2, THEN conjunct2]
  have c1: "fst (updateExperiment (memLayer True) duplicateKeyRequest memServer)
     = Inl (Error ''Experiment with tracking key already exists: pricing-v2'')
   \<and> newCalls (memLayer True) duplicateKeyRequest memServer
     = [GetExperimentById ''exp_1'', CanUpdateExperiment, GetDataSourceById ''ds_1'',
        GetExperimentByTrackingKey ''pricing-v2'']
   \<and> db (snd (updateExperiment (memLayer True) duplicateKeyRequest memServer)) = db memServer"
    using T1 by (simp add: mem_facts request_facts projectsOk_def projectCalls_def)
  have c2: "fst (updateExperiment (memLayer False) duplicateKeyRequest memServer) = Inl PermissionError
   \<and> newCalls (memLayer False) duplicateKeyRequest memServer
     = [GetExperimentById ''exp_1'', CanUpdateExperiment]"
    using T2 by (simp add: mem_facts request_facts projectsOk_def projectCalls_def)
  have c3: "fst (updateExperiment (memLayer True) ?q memServer) = Inl ProjectsError
   \<and> newCalls (memLayer True) ?q memServer
     = [GetExperimentById ''exp_1'', EnsureProjectsExist [''prj_9'']]"
    using T3 by (simp add: mem_facts request_facts projectsOk_def projectCalls_def)
  have c4: "GetExperimentByTrackingKey ''checkout-v1''
       \<notin> set (newCalls (memLayer True) sameKeyRequest memServer)"
    using T4 by (simp add: mem_facts request_facts)
  from c1 c2 c3 c4 show ?thesis
    by simp
qed

lemma unrecognized_outcome:
  assumes "getExperimentById dl (db sv) (params_id req) = Some e"
    and "getDataSourceById dl (db sv) (datasource e) = Some ds"
    and "assignmentQueryId (body req) = Given a"
    and "a \<noteq> exposureQueryId e"
    and "a \<notin> set (configuredExposureQueryIds ds)"
  shows "updateExperiment dl req sv =
     (Inl (if \<not> projectsOk dl req sv then ProjectsError
           else if \<not> canUpdateExperiment dl e (body req) then PermissionError
           else Error (''Unrecognized assignment query ID: '' @ a)),
      sv\<lparr>calls := calls sv @
          GetExperimentById (params_id req) # projectCalls req @
          (if \<not> projectsOk dl req sv then []
           else CanUpdateExperiment #
             (if \<not> canUpdateExperiment dl e (body req) then []
              else [GetDataSourceById (datasource e)]))\<rparr>)"
proof (cases "projectsOk dl req sv")
  case False
  then show ?thesis
    by (simp add: handler_projects [OF assms(1)])
next
  case p: True
  show ?thesis
  proof (cases "canUpdateExperiment dl e (body req)")
    case False
    then show ?thesis
      using p by (simp add: handler_permission [OF assms(1)])
  next
    case c: True
    show ?thesis
      using p c by (simp add: handler_unrecognized [OF assms(1) p c assms(2-5)])
  qed
qed

text \<open>
  Claim C3, as the handler has it. Take a request for an existing experiment with a
  datasource, whose body has an assignment query id that differs from the experiment's
  exposure query id and is none of the ids of the datasource's exposure queries. The request
  fails, \<open>updateExperimentToDb\<close> is not called and the database is as it was. The checks
  run in the order of the handler, and the first that fails gives the error and ends the
  calls: the check of the project, the check of the permission, and, when both pass, the
  lookup of the datasource and the unrecognized assignment query, its message ending in the
  id. When the id is absent, \<open>null\<close> or the experiment's exposure query id, the check does
  not apply, whatever the datasource, and the request does not fail with this error.
\<close>

theorem unknown_assignmentQueryId_rejected:
  "(getExperimentById dl (db sv) (params_id req) = Some e
      \<and> getDataSourceById dl (db sv) (datasource e) = Some ds
      \<and> assignmentQueryId (body req) = Given a \<and> a \<noteq> exposureQueryId e
      \<and> a \<notin> set (configuredExposureQueryIds ds) \<longrightarrow>
      fst (updateExperiment dl req sv) =
        Inl (if \<not> projectsOk dl req sv then ProjectsError
             else if \<not> canUpdateExperiment dl e (body req) then PermissionError
             else Error (''Unrecognized assignment query ID: '' @ a))
      \<and> newCalls dl req sv =
          GetExperimentById (params_id req) # projectCalls req @
          (if \<not> projectsOk dl req sv then []
           else CanUpdateExperiment #
             (if \<not> canUpdateExperiment dl e (body req) then []
              else [GetDataSourceById (datasource e)]))
      \<and> UpdateExperimentToDb \<notin> set (newCalls dl req sv)
      \<and> db (snd (updateExperiment dl req sv)) = db sv)
   \<and> (assignmentQueryId (body req) = Absent \<or> assignmentQueryId (body req) = IsNull
      \<or> (getExperimentById dl (db sv) (params_id req) = Some e
          \<and> assignmentQueryId (body req) = Given (exposureQueryId e)) \<longrightarrow>
      \<not> unrecognizedAssignmentQuery (body req) e ds'
      \<and> fst (updateExperiment dl req sv) \<noteq> Inl (Error (''Unrecognized assignment query ID: '' @ x)))"
proof (intro conjI impI)
  assume a: "getExperimentById dl (db sv) (params_id req) = Some e
      \<and> getDataSourceById dl (db sv) (datasource e) = Some ds
      \<and> assignmentQueryId (body req) = Given a \<and> a \<noteq> exposureQueryId e
      \<and> a \<notin> set (configuredExposureQueryIds ds)"
  then have o: "getExperimentById dl (db sv) (params_id req) = Some e"
    "getDataSourceById dl (db sv) (datasource e) = Some ds"
    "assignmentQueryId (body req) = Given a" "a \<noteq> exposureQueryId e"
    "a \<notin> set (configuredExposureQueryIds ds)"
    by simp_all
  note c = unrecognized_outcome [OF o]
  show "fst (updateExperiment dl req sv) =
        Inl (if \<not> projectsOk dl req sv then ProjectsError
             else if \<not> canUpdateExperiment dl e (body req) then PermissionError
             else Error (''Unrecognized assignment query ID: '' @ a))"
    by (simp only: c fst_conv)
  show n: "newCalls dl req sv =
          GetExperimentById (params_id req) # projectCalls req @
          (if \<not> projectsOk dl req sv then []
           else CanUpdateExperiment #
             (if \<not> canUpdateExperiment dl e (body req) then []
              else [GetDataSourceById (datasource e)]))"
    by (rule newCalls_eq [OF c])
  show "UpdateExperimentToDb \<notin> set (newCalls dl req sv)"
    unfolding n by (auto simp: projectCalls_def split: field.splits if_splits)
  show "db (snd (updateExperiment dl req sv)) = db sv"
    by (simp only: c snd_conv) simp
next
  assume b: "assignmentQueryId (body req) = Absent \<or> assignmentQueryId (body req) = IsNull
      \<or> (getExperimentById dl (db sv) (params_id req) = Some e
          \<and> assignmentQueryId (body req) = Given (exposureQueryId e))"
  then show "\<not> unrecognizedAssignmentQuery (body req) e ds'"
    by (auto simp: unrecognizedAssignmentQuery_def)
  show "fst (updateExperiment dl req sv) \<noteq> Inl (Error (''Unrecognized assignment query ID: '' @ x))"
    using b by (intro check_skipped) auto
qed

text \<open>
  The validation error is not what every such request gets: the permission check comes
  first. Here the assignment query id is unknown to the datasource and the caller may not
  update the experiment; the error is the permission error.
\<close>

theorem unknown_assignmentQueryId_rejected_counterexample:
  "getExperimentById (memLayer False) (db memServer) (params_id unknownQueryRequest) = Some exp1
   \<and> getDataSourceById (memLayer False) (db memServer) (datasource exp1) = Some ds1
   \<and> assignmentQueryId (body unknownQueryRequest) = Given ''device_id''
   \<and> ''device_id'' \<noteq> exposureQueryId exp1
   \<and> ''device_id'' \<notin> set (configuredExposureQueryIds ds1)
   \<and> fst (updateExperiment (memLayer False) unknownQueryRequest memServer) = Inl PermissionError"
  by (simp add: handler_defs memLayer_def memServer_def unknownQueryRequest_def emptyBody_def
      exp1_def exp2_def ds1_def unrecognizedAssignmentQuery_def configuredExposureQueryIds_def)

theorem unknown_assignmentQueryId_rejected_witness:
  "fst (updateExperiment (memLayer True) unknownQueryRequest memServer)
     = Inl (Error ''Unrecognized assignment query ID: device_id'')
   \<and> newCalls (memLayer True) unknownQueryRequest memServer
     = [GetExperimentById ''exp_1'', CanUpdateExperiment, GetDataSourceById ''ds_1'']
   \<and> db (snd (updateExperiment (memLayer True) unknownQueryRequest memServer)) = db memServer
   \<and> fst (updateExperiment (memLayer False) unknownQueryRequest memServer) = Inl PermissionError
   \<and> newCalls (memLayer False) unknownQueryRequest memServer
     = [GetExperimentById ''exp_1'', CanUpdateExperiment]
   \<and> fst (updateExperiment (memLayer True) nullQueryRequest memServer)
       \<noteq> Inl (Error ''Unrecognized assignment query ID: '')
   \<and> fst (updateExperiment (memLayer True) nullQueryRequest memServer) = Inr exp1"
proof -
  note T1 = unknown_assignmentQueryId_rejected
      [of "memLayer True" memServer unknownQueryRequest exp1 ds1 "''device_id''", THEN conjunct1]
  note T2 = unknown_assignmentQueryId_rejected
      [of "memLayer False" memServer unknownQueryRequest exp1 ds1 "''device_id''", THEN conjunct1]
  note T3 = unknown_assignmentQueryId_rejected
      [of "memLayer True" memServer nullQueryRequest exp1 ds1 "''device_id''" ds1 "[]",
       THEN conjunct2]
  have c1: "fst (updateExperiment (memLayer True) unknownQueryRequest memServer)
     = Inl (Error ''Unrecognized assignment query ID: device_id'')
   \<and> newCalls (memLayer True) unknownQueryRequest memServer
     = [GetExperimentById ''exp_1'', CanUpdateExperiment, GetDataSourceById ''ds_1'']
   \<and> db (snd (updateExperiment (memLayer True) unknownQueryRequest memServer)) = db memServer"
    using T1 by (simp add: mem_facts request_facts projectsOk_def projectCalls_def)
  have c2: "fst (updateExperiment (memLayer False) unknownQueryRequest memServer) = Inl PermissionError
   \<and> newCalls (memLayer False) unknownQueryRequest memServer
     = [GetExperimentById ''exp_1'', CanUpdateExperiment]"
    using T2 by (simp add: mem_facts request_facts projectsOk_def projectCalls_def)
  have c3: "fst (updateExperiment (memLayer True) nullQueryRequest memServer)
       \<noteq> Inl (Error ''Unrecognized assignment query ID: '')"
    using T3 by (simp add: request_facts)
  have s: "fst (updateExperiment (memLayer True) nullQueryRequest memServer) = Inr exp1"
    by (simp add: handler_defs memLayer_def memServer_def nullQueryRequest_def emptyBody_def
      exp1_def exp2_def ds1_def unrecognizedAssignmentQuery_def applyBody_def)
  from c1 c2 c3 s show ?thesis
    by simp
qed

end
